theory Spec2Isabelle
  imports Main "HOL-Library.Word" "HOL-Library.Sublist"
begin

section \<open>Python values used by the two scripts\<close>

text \<open>
  The repository holds two command-line scripts, \<^verbatim>\<open>check_file.py\<close> (the Syntax
  Checker) and \<^verbatim>\<open>verify_json_file.py\<close> (the Schema Validator). Both are straight-line
  code around calls into the Python standard library and one external model library.
  A Python \<^verbatim>\<open>str\<close> is a sequence of Unicode code points and is modelled as a list of
  natural numbers; a \<^verbatim>\<open>bytes\<close> object is a list of 8-bit words.
\<close>

type_synonym ustr = "nat list"
type_synonym byte = "8 word"

definition lit :: "string \<Rightarrow> ustr" where
  "lit s = map of_char s"

text \<open>The apostrophe that the messages put around file names and text windows.\<close>

definition apostrophe :: ustr where
  "apostrophe = [39]"

text \<open>Text of the ASCII range, which every encoding of standard output can write.\<close>

definition ascii :: "ustr \<Rightarrow> bool" where
  "ascii s = list_all (\<lambda>c. c < 128) s"

subsection \<open>Formatting: decimal integers and hexadecimal bytes\<close>

fun str_nat :: "nat \<Rightarrow> ustr" where
  "str_nat n = (if n < 10 then [48 + n] else str_nat (n div 10) @ [48 + n mod 10])"

declare str_nat.simps [simp del]

text \<open>What an f-string prints for an \<^verbatim>\<open>int\<close>.\<close>

definition str_int :: "int \<Rightarrow> ustr" where
  "str_int i = (if i < 0 then 45 # str_nat (nat (- i)) else str_nat (nat i))"

definition hex_digit :: "nat \<Rightarrow> nat" where
  "hex_digit d = (if d < 10 then 48 + d else 87 + d)"

text \<open>\<^verbatim>\<open>bytes.hex()\<close>: two lower-case hexadecimal digits for each byte.\<close>

fun hex :: "byte list \<Rightarrow> ustr" where
  "hex [] = []"
| "hex (b # bs) = hex_digit (unat b div 16) # hex_digit (unat b mod 16) # hex bs"

subsection \<open>Slicing\<close>

text \<open>
  \<^verbatim>\<open>xs[i:j]\<close> for a sequence of length \<open>n\<close>: a negative bound counts from the end,
  and every bound is clamped into \<open>0..n\<close>; nothing is raised for a bound out of range.
\<close>

definition slice_bound :: "nat \<Rightarrow> int \<Rightarrow> nat" where
  "slice_bound n i = (if i < 0 then nat (max 0 (int n + i)) else min n (nat i))"

definition py_slice :: "'a list \<Rightarrow> int \<Rightarrow> int \<Rightarrow> 'a list" where
  "py_slice xs i j = drop (slice_bound (length xs) i) (take (slice_bound (length xs) j) xs)"

subsection \<open>Exceptions\<close>

text \<open>
  The exception classes that the library calls of the two scripts raise, with the
  method resolution order of each below \<^verbatim>\<open>BaseException\<close>. All of them derive from
  \<^verbatim>\<open>Exception\<close>. \<open>ValidationError\<close> is the one of the schema library, a \<^verbatim>\<open>ValueError\<close>.
  An exception of a class that is not listed is represented by its nearest listed
  base class, which answers every \<^verbatim>\<open>except\<close> clause of the scripts in the same way.
\<close>

datatype exn_class =
    Exception | ValueError | JSONDecodeError | UnicodeError | UnicodeDecodeError
  | ValidationError | OSError | FileNotFoundError | PermissionError | IsADirectoryError
  | UnicodeEncodeError | RuntimeError | RecursionError | MemoryError

fun mro :: "exn_class \<Rightarrow> exn_class list" where
  "mro Exception = [Exception]"
| "mro ValueError = [ValueError, Exception]"
| "mro JSONDecodeError = [JSONDecodeError, ValueError, Exception]"
| "mro UnicodeError = [UnicodeError, ValueError, Exception]"
| "mro UnicodeDecodeError = [UnicodeDecodeError, UnicodeError, ValueError, Exception]"
| "mro UnicodeEncodeError = [UnicodeEncodeError, UnicodeError, ValueError, Exception]"
| "mro ValidationError = [ValidationError, ValueError, Exception]"
| "mro OSError = [OSError, Exception]"
| "mro FileNotFoundError = [FileNotFoundError, OSError, Exception]"
| "mro PermissionError = [PermissionError, OSError, Exception]"
| "mro IsADirectoryError = [IsADirectoryError, OSError, Exception]"
| "mro RuntimeError = [RuntimeError, Exception]"
| "mro RecursionError = [RecursionError, RuntimeError, Exception]"
| "mro MemoryError = [MemoryError, Exception]"

text \<open>
  An exception value: its class, the text \<^verbatim>\<open>str(e)\<close>, and the attribute \<^verbatim>\<open>pos\<close>, which
  only a \<open>JSONDecodeError\<close> has and only its handler reads.
\<close>

datatype exn = Exn (exn_class: exn_class) (exn_str: ustr) (exn_pos: int)

definition isinstance :: "exn \<Rightarrow> exn_class \<Rightarrow> bool" where
  "isinstance x c = (c \<in> set (mro (exn_class x)))"

section \<open>The \<^verbatim>\<open>utf-16\<close> codec behind \<^verbatim>\<open>open(path, 'r', encoding='utf-16')\<close>\<close>

text \<open>
  Both scripts open the file in text mode with \<^verbatim>\<open>encoding='utf-16'\<close> and read it whole.
  The text layer hands all bytes to the incremental decoder of the \<^verbatim>\<open>utf-16\<close> codec
  in one final call and then translates line endings. The decoder is strict: it raises
  at the first ill-formed code unit.
\<close>

datatype endian = Little | Big

definition code_unit :: "endian \<Rightarrow> byte \<Rightarrow> byte \<Rightarrow> nat" where
  "code_unit bo b0 b1 =
     (case bo of Little \<Rightarrow> unat b0 + 256 * unat b1 | Big \<Rightarrow> 256 * unat b0 + unat b1)"

definition codec_name :: "endian \<Rightarrow> ustr" where
  "codec_name bo = (case bo of Little \<Rightarrow> lit ''utf-16-le'' | Big \<Rightarrow> lit ''utf-16-be'')"

text \<open>
  \<^verbatim>\<open>str\<close> of a \<open>UnicodeDecodeError\<close> with the attributes encoding, object, start, end
  and reason.
\<close>

definition decode_error :: "endian \<Rightarrow> byte list \<Rightarrow> nat \<Rightarrow> nat \<Rightarrow> string \<Rightarrow> exn" where
  "decode_error bo obj start end reason =
     Exn UnicodeDecodeError
       (if start < length obj \<and> end = start + 1
        then apostrophe @ codec_name bo @ apostrophe @ lit '' codec can't decode byte 0x''
               @ hex [obj ! start] @ lit '' in position '' @ str_nat start
               @ lit '': '' @ lit reason
        else apostrophe @ codec_name bo @ apostrophe @ lit '' codec can't decode bytes in position ''
               @ str_nat start @ lit ''-'' @ str_nat (end - 1)
               @ lit '': '' @ lit reason)
       0"

definition is_surrogate :: "nat \<Rightarrow> bool" where
  "is_surrogate ch = (0xD800 \<le> ch \<and> ch \<le> 0xDFFF)"

definition is_high_surrogate :: "nat \<Rightarrow> bool" where
  "is_high_surrogate ch = (0xD800 \<le> ch \<and> ch \<le> 0xDBFF)"

definition is_low_surrogate :: "nat \<Rightarrow> bool" where
  "is_low_surrogate ch = (0xDC00 \<le> ch \<and> ch \<le> 0xDFFF)"

definition join_surrogates :: "nat \<Rightarrow> nat \<Rightarrow> nat" where
  "join_surrogates hi lo = 0x10000 + (hi - 0xD800) * 0x400 + (lo - 0xDC00)"

text \<open>
  The decoding loop over the bytes \<open>q\<close> that start at offset \<open>i\<close> of the whole input
  \<open>obj\<close>: a lone trailing byte is truncated data, a low surrogate first is an illegal
  encoding, a high surrogate needs a low one after it.
\<close>

fun utf_16_decode_units :: "endian \<Rightarrow> byte list \<Rightarrow> nat \<Rightarrow> byte list \<Rightarrow> exn + ustr" where
  "utf_16_decode_units bo obj i [] = Inr []"
| "utf_16_decode_units bo obj i [b] = Inl (decode_error bo obj i (i + 1) ''truncated data'')"
| "utf_16_decode_units bo obj i (b0 # b1 # q) =
     (let ch = code_unit bo b0 b1 in
      if \<not> is_surrogate ch then
        (case utf_16_decode_units bo obj (i + 2) q of
           Inl x \<Rightarrow> Inl x
         | Inr s \<Rightarrow> Inr (ch # s))
      else if \<not> is_high_surrogate ch then
        Inl (decode_error bo obj i (i + 2) ''illegal encoding'')
      else
        (case q of
           b2 # b3 # q' \<Rightarrow>
             if is_low_surrogate (code_unit bo b2 b3) then
               (case utf_16_decode_units bo obj (i + 4) q' of
                  Inl x \<Rightarrow> Inl x
                | Inr s \<Rightarrow> Inr (join_surrogates ch (code_unit bo b2 b3) # s))
             else Inl (decode_error bo obj i (i + 2) ''illegal UTF-16 surrogate'')
         | _ \<Rightarrow> Inl (decode_error bo obj i (i + 2 + length q) ''unexpected end of data'')))"

text \<open>
  \<^verbatim>\<open>codecs.utf_16_ex_decode(input, 'strict', 0, True)\<close>: a leading byte order mark
  selects the byte order and is dropped; without one the platform's own order
  \<open>native\<close> is used. The result is the text with the byte order found (\<open>None\<close> when
  there was no mark) and the number of bytes consumed.
\<close>

definition utf_16_ex_decode :: "endian \<Rightarrow> byte list \<Rightarrow> exn + (ustr \<times> nat \<times> endian option)" where
  "utf_16_ex_decode native input =
     (case input of
        b0 # b1 # q \<Rightarrow>
          if b0 = 0xFF \<and> b1 = 0xFE then
            (case utf_16_decode_units Little input 2 q of
               Inl x \<Rightarrow> Inl x | Inr s \<Rightarrow> Inr (s, length input, Some Little))
          else if b0 = 0xFE \<and> b1 = 0xFF then
            (case utf_16_decode_units Big input 2 q of
               Inl x \<Rightarrow> Inl x | Inr s \<Rightarrow> Inr (s, length input, Some Big))
          else
            (case utf_16_decode_units native input 0 input of
               Inl x \<Rightarrow> Inl x | Inr s \<Rightarrow> Inr (s, length input, None))
      | _ \<Rightarrow>
          (case utf_16_decode_units native input 0 input of
             Inl x \<Rightarrow> Inl x | Inr s \<Rightarrow> Inr (s, length input, None)))"

text \<open>
  \<^verbatim>\<open>encodings.utf_16.IncrementalDecoder._buffer_decode\<close>: input that was decoded
  without a byte order mark is refused once two bytes or more have been consumed.
\<close>

definition buffer_decode :: "endian \<Rightarrow> byte list \<Rightarrow> exn + ustr" where
  "buffer_decode native input =
     (case utf_16_ex_decode native input of
        Inl x \<Rightarrow> Inl x
      | Inr (output, consumed, byteorder) \<Rightarrow>
          (case byteorder of
             Some _ \<Rightarrow> Inr output
           | None \<Rightarrow>
               if consumed \<ge> 2
               then Inl (Exn UnicodeError (lit ''UTF-16 stream does not start with BOM'') 0)
               else Inr output))"

text \<open>Universal newlines of text mode: \<open>\r\n\<close> and a lone \<open>\r\<close> are read as \<open>\n\<close>.\<close>

fun translate_newlines :: "ustr \<Rightarrow> ustr" where
  "translate_newlines [] = []"
| "translate_newlines (c # cs) =
     (if c = 13 then
        (case cs of
           d # ds \<Rightarrow> if d = 10 then 10 # translate_newlines ds else 10 # translate_newlines cs
         | [] \<Rightarrow> [10])
      else c # translate_newlines cs)"

definition decode_utf_16 :: "endian \<Rightarrow> byte list \<Rightarrow> exn + ustr" where
  "decode_utf_16 native input =
     (case buffer_decode native input of
        Inl x \<Rightarrow> Inl x
      | Inr s \<Rightarrow> Inr (translate_newlines s))"

section \<open>The environment of a run\<close>

text \<open>
  What a run observes of the machine, of the file system, of standard output and of
  the two libraries it calls. The JSON parser and the schema library are black boxes:
  \<open>json_loads\<close> is \<^verbatim>\<open>json.loads\<close>, \<open>model_validate\<close> is
  \<^verbatim>\<open>AddUpdateRequest.model_validate\<close>, and \<open>model_str\<close> is \<^verbatim>\<open>str\<close> of the validated model;
  \<open>'j\<close> is the type of parsed documents and \<open>'m\<close> the type of validated models.
  \<open>os_stat\<close> gives the size that \<^verbatim>\<open>os.stat\<close> reports for a path, \<open>open_file\<close> the bytes
  read after \<^verbatim>\<open>open\<close>; each returns the exception on the left when the call raises.
  One run sees one file system: the same call on the same path gives the same answer.
  \<open>stdout_encodes\<close> tells which code points beyond ASCII the encoding of standard
  output can write, and \<open>encode_error_str\<close> is the text of the \<open>UnicodeEncodeError\<close>
  that writing a line raises when it cannot.
\<close>

record ('j, 'm) env =
  byteorder :: endian
  os_stat :: "ustr \<Rightarrow> exn + nat"
  open_file :: "ustr \<Rightarrow> exn + byte list"
  json_loads :: "ustr \<Rightarrow> exn + 'j"
  model_validate :: "'j \<Rightarrow> exn + 'm"
  model_str :: "'m \<Rightarrow> ustr"
  stdout_encodes :: "nat \<Rightarrow> bool"
  encode_error_str :: "ustr \<Rightarrow> ustr"

text \<open>\<^verbatim>\<open>os.path.exists\<close> is false when \<^verbatim>\<open>os.stat\<close> raises; \<^verbatim>\<open>os.path.getsize\<close> lets it raise.\<close>

definition os_path_exists :: "('j, 'm) env \<Rightarrow> ustr \<Rightarrow> bool" where
  "os_path_exists e path = (case os_stat e path of Inl _ \<Rightarrow> False | Inr _ \<Rightarrow> True)"

definition os_path_getsize :: "('j, 'm) env \<Rightarrow> ustr \<Rightarrow> exn + nat" where
  "os_path_getsize e path = os_stat e path"

text \<open>\<^verbatim>\<open>with open(path, 'r', encoding='utf-16') as f: f.read()\<close>\<close>

definition read_text :: "('j, 'm) env \<Rightarrow> ustr \<Rightarrow> exn + ustr" where
  "read_text e path =
     (case open_file e path of
        Inl x \<Rightarrow> Inl x
      | Inr input \<Rightarrow> decode_utf_16 (byteorder e) input)"

subsection \<open>The state of the process\<close>

text \<open>
  A run prints lines on standard output and appends records to the log file
  \<^verbatim>\<open>data_restore.log\<close>. The field \<open>calls\<close> is bookkeeping of the model: it lists, in
  order, the library calls that open the stages of the Schema Validator.
\<close>

datatype level = INFO | ERROR

datatype call =
  Os_path_exists | Os_path_getsize | Open_rb | Open_utf_16 | Json_loads | Model_validate

record proc =
  stdout :: "ustr list"
  logfile :: "(level \<times> ustr) list"
  calls :: "call list"

definition start :: proc where
  "start = \<lparr>stdout = [], logfile = [], calls = []\<rparr>"

definition printed :: "ustr \<Rightarrow> proc \<Rightarrow> proc" where
  "printed s w = w\<lparr>stdout := stdout w @ [s]\<rparr>"

text \<open>
  \<^verbatim>\<open>logging.info\<close> and \<^verbatim>\<open>logging.error\<close>. The log file is opened by
  \<^verbatim>\<open>logging.basicConfig(filename=...)\<close>, which escapes what the file's encoding cannot
  write, and the logging module keeps its own failures to itself: a record is always
  written and nothing is raised into the script.
\<close>

definition logging :: "level \<Rightarrow> ustr \<Rightarrow> proc \<Rightarrow> proc" where
  "logging l s w = w\<lparr>logfile := logfile w @ [(l, s)]\<rparr>"

definition called :: "call \<Rightarrow> proc \<Rightarrow> proc" where
  "called c w = w\<lparr>calls := calls w @ [c]\<rparr>"

text \<open>
  How a piece of code ends: it returns a value, it raises an exception (a subclass of
  \<^verbatim>\<open>Exception\<close>), or it calls \<^verbatim>\<open>sys.exit(n)\<close>. \<^verbatim>\<open>sys.exit\<close> raises \<^verbatim>\<open>SystemExit\<close>, which
  \<^verbatim>\<open>except Exception\<close> does not catch. An exception that nothing catches ends the
  process with a traceback on standard error and status 1; falling off the end of the
  script gives status 0.
\<close>

datatype 'a result = Return 'a | Raise exn | Exit nat

fun exit_status :: "'a result \<Rightarrow> nat" where
  "exit_status (Return _) = 0"
| "exit_status (Raise _) = 1"
| "exit_status (Exit n) = n"

definition sys_exit :: "nat \<Rightarrow> proc \<Rightarrow> 'a result \<times> proc" where
  "sys_exit n w = (Exit n, w)"

text \<open>
  One statement after another: the second runs only when the first returns; an
  exception or an exit of the first ends both.
\<close>

definition andthen ::
  "'a result \<times> proc \<Rightarrow> ('a \<Rightarrow> proc \<Rightarrow> 'b result \<times> proc) \<Rightarrow> 'b result \<times> proc" where
  "andthen m f =
     (case m of
        (Return v, w) \<Rightarrow> f v w
      | (Raise x, w) \<Rightarrow> (Raise x, w)
      | (Exit n, w) \<Rightarrow> (Exit n, w))"

text \<open>
  \<^verbatim>\<open>print(s)\<close> encodes the line for standard output. ASCII is part of every encoding
  that Python gives standard output; a line with a code point that the encoding cannot
  write raises \<open>UnicodeEncodeError\<close> and nothing of it is printed.
\<close>

definition can_print :: "('j, 'm) env \<Rightarrow> ustr \<Rightarrow> bool" where
  "can_print e s = list_all (\<lambda>c. c < 128 \<or> stdout_encodes e c) s"

definition print :: "('j, 'm) env \<Rightarrow> ustr \<Rightarrow> proc \<Rightarrow> unit result \<times> proc" where
  "print e s w =
     (if can_print e s then (Return (), printed s w)
      else (Raise (Exn UnicodeEncodeError (encode_error_str e s) 0), w))"

section \<open>\<^verbatim>\<open>check_file.py\<close>: the Syntax Checker\<close>

text \<open>\<^verbatim>\<open>with open(file_path, 'r', encoding='utf-16') as f: json.load(f)\<close>\<close>

definition json_load :: "('j, 'm) env \<Rightarrow> ustr \<Rightarrow> exn + 'j" where
  "json_load e file_path =
     (case read_text e file_path of
        Inl x \<Rightarrow> Inl x
      | Inr content \<Rightarrow> json_loads e content)"

text \<open>
  The three handlers print and exit; an exception that a handler's own \<^verbatim>\<open>print\<close>
  raises is not caught by the handlers beside it.
\<close>

definition check_json_file :: "('j, 'm) env \<Rightarrow> ustr \<Rightarrow> proc \<Rightarrow> unit result \<times> proc" where
  "check_json_file e file_path w =
     (case json_load e file_path of
        Inl x \<Rightarrow>
          if isinstance x ValueError then
            andthen (print e (lit ''Invalid JSON file: '' @ exn_str x) w) (\<lambda>_. sys_exit 1)
          else if isinstance x FileNotFoundError then
            andthen (print e (lit ''File not found: '' @ exn_str x) w) (\<lambda>_. sys_exit 1)
          else
            andthen (print e (lit ''Error: '' @ exn_str x) w) (\<lambda>_. sys_exit 1)
      | Inr _ \<Rightarrow> print e (lit ''Valid JSON file'') w)"

text \<open>
  The script: \<^verbatim>\<open>sys.argv\<close> is the program name \<open>prog\<close> followed by the arguments
  \<open>args\<close> of the command line.
\<close>

definition usage :: "ustr \<Rightarrow> ustr" where
  "usage prog = lit ''Usage: python '' @ prog @ lit '' <json_file>''"

definition check_file ::
  "('j, 'm) env \<Rightarrow> ustr \<Rightarrow> ustr list \<Rightarrow> proc \<Rightarrow> unit result \<times> proc" where
  "check_file e prog args w =
     (let argv = prog # args in
      if length argv \<noteq> 2 then andthen (print e (usage (argv ! 0)) w) (\<lambda>_. sys_exit 1)
      else check_json_file e (argv ! 1) w)"

section \<open>\<^verbatim>\<open>verify_json_file.py\<close>: the Schema Validator\<close>

text \<open>Lines 33 to 35: the body of the inner \<^verbatim>\<open>try\<close>.\<close>

definition loads_content :: "('j, 'm) env \<Rightarrow> ustr \<Rightarrow> proc \<Rightarrow> 'j result \<times> proc" where
  "loads_content e content w =
     (let w = called Json_loads w in
      case json_loads e content of
        Inl x \<Rightarrow> (Raise x, w)
      | Inr data \<Rightarrow>
          andthen (print e (lit ''JSON parsed successfully!'') w) (\<lambda>_ w. (Return data, w)))"

text \<open>Lines 32 to 39: the inner \<^verbatim>\<open>try\<close> with its handler \<^verbatim>\<open>except json.JSONDecodeError\<close>.\<close>

definition parse_content :: "('j, 'm) env \<Rightarrow> ustr \<Rightarrow> proc \<Rightarrow> 'j result \<times> proc" where
  "parse_content e content w =
     (case loads_content e content w of
        (Raise x, w) \<Rightarrow>
          if isinstance x JSONDecodeError then
            andthen (print e (lit ''JSON parsing error: '' @ exn_str x) w) (\<lambda>_ w.
            andthen (print e (lit ''Error at position '' @ str_int (exn_pos x) @ lit '', near: ''
                              @ apostrophe
                              @ py_slice content (max 0 (exn_pos x - 20)) (exn_pos x + 20)
                              @ apostrophe) w) (\<lambda>_.
            sys_exit 1))
          else (Raise x, w)
      | (Return data, w) \<Rightarrow> (Return data, w)
      | (Exit n, w) \<Rightarrow> (Exit n, w))"

text \<open>Lines 28 to 39: the body of the outer \<^verbatim>\<open>try\<close>.\<close>

definition read_and_parse :: "('j, 'm) env \<Rightarrow> ustr \<Rightarrow> proc \<Rightarrow> 'j result \<times> proc" where
  "read_and_parse e source_file w =
     (let w = called Open_utf_16 w in
      case read_text e source_file of
        Inl x \<Rightarrow> (Raise x, w)
      | Inr content \<Rightarrow>
          andthen (print e (lit ''File content starts with: '' @ py_slice content 0 50
                            @ lit ''...'') w) (\<lambda>_.
          parse_content e content))"

text \<open>
  Lines 27 to 42: the outer \<^verbatim>\<open>try\<close> with its handler \<^verbatim>\<open>except Exception\<close>, which also
  catches what the prints of lines 30 to 38 raise.
\<close>

definition try_read_and_parse :: "('j, 'm) env \<Rightarrow> ustr \<Rightarrow> proc \<Rightarrow> 'j result \<times> proc" where
  "try_read_and_parse e source_file w =
     (case read_and_parse e source_file w of
        (Raise x, w) \<Rightarrow>
          andthen (print e (lit ''File reading error: '' @ exn_str x) w) (\<lambda>_. sys_exit 1)
      | (Return data, w) \<Rightarrow> (Return data, w)
      | (Exit n, w) \<Rightarrow> (Exit n, w))"

text \<open>Lines 11 to 42. The prints of lines 14, 18 and 24 stand outside every \<^verbatim>\<open>try\<close>.\<close>

definition validate_and_load_json :: "('j, 'm) env \<Rightarrow> ustr \<Rightarrow> proc \<Rightarrow> 'j result \<times> proc" where
  "validate_and_load_json e source_file w =
     (let w = called Os_path_exists w in
      if \<not> os_path_exists e source_file then
        andthen (print e (lit ''Error: File '' @ apostrophe @ source_file @ apostrophe
                          @ lit '' does not exist'') w) (\<lambda>_. sys_exit 1)
      else
        (let w = called Os_path_getsize w in
         case os_path_getsize e source_file of
           Inl x \<Rightarrow> (Raise x, w)
         | Inr n \<Rightarrow>
             if n = 0 then
               andthen (print e (lit ''Error: File '' @ apostrophe @ source_file @ apostrophe
                                 @ lit '' is empty'') w) (\<lambda>_. sys_exit 1)
             else
               (let w = called Open_rb w in
                case open_file e source_file of
                  Inl x \<Rightarrow> (Raise x, w)
                | Inr content \<Rightarrow>
                    (let first_bytes = take 10 content in
                     andthen (print e (lit ''First bytes (hex): '' @ hex first_bytes) w) (\<lambda>_.
                     try_read_and_parse e source_file)))))"

text \<open>Lines 50 to 53: the body of the \<^verbatim>\<open>try\<close> of \<^verbatim>\<open>main\<close>.\<close>

definition validate_model :: "('j, 'm) env \<Rightarrow> 'j \<Rightarrow> proc \<Rightarrow> unit result \<times> proc" where
  "validate_model e data w =
     (let w = called Model_validate w in
      case model_validate e data of
        Inl x \<Rightarrow> (Raise x, w)
      | Inr response \<Rightarrow>
          (let w = logging INFO (lit ''Data loaded successfully'') w in
           andthen (print e (lit ''Data loaded into AddUpdateRequest model successfully!'') w)
             (\<lambda>_.
           print e (model_str e response))))"

text \<open>
  Lines 44 to 57. The handler \<^verbatim>\<open>except Exception\<close> catches what \<^verbatim>\<open>model_validate\<close>
  raises and also what the two prints of the \<^verbatim>\<open>try\<close> raise.
\<close>

definition main :: "('j, 'm) env \<Rightarrow> ustr \<Rightarrow> proc \<Rightarrow> unit result \<times> proc" where
  "main e source_file w =
     andthen (validate_and_load_json e source_file w) (\<lambda>data w.
       case validate_model e data w of
         (Raise x, w) \<Rightarrow>
           (let w = logging ERROR
                      (lit ''Error validating data against AddUpdateRequest model: ''
                       @ exn_str x) w in
            andthen (print e (lit ''Error validating data against AddUpdateRequest model: ''
                              @ exn_str x) w) (\<lambda>_. sys_exit 1))
       | (Return u, w) \<Rightarrow> (Return u, w)
       | (Exit n, w) \<Rightarrow> (Exit n, w))"

definition verify_json_file ::
  "('j, 'm) env \<Rightarrow> ustr \<Rightarrow> ustr list \<Rightarrow> proc \<Rightarrow> unit result \<times> proc" where
  "verify_json_file e prog args w =
     (let argv = prog # args in
      if length argv \<noteq> 2 then andthen (print e (usage (argv ! 0)) w) (\<lambda>_. sys_exit 1)
      else main e (argv ! 1) w)"

section \<open>Stages of the Schema Validator\<close>

text \<open>
  The six stages in the order of the source text, each named by the library call that
  opens it. A stage passes on a path when its call succeeds and the progress line that
  carries text of the file reaches standard output: the path exists, its size is not
  zero, it can be opened for the byte preview, its bytes decode and the start of the
  text is printed, the text parses, the parsed document validates and the validated
  model is printed.
\<close>

definition pipeline :: "call list" where
  "pipeline = [Os_path_exists, Os_path_getsize, Open_rb, Open_utf_16, Json_loads, Model_validate]"

fun stage_ok :: "('j, 'm) env \<Rightarrow> ustr \<Rightarrow> call \<Rightarrow> bool" where
  "stage_ok e p Os_path_exists = os_path_exists e p"
| "stage_ok e p Os_path_getsize = (case os_path_getsize e p of Inl _ \<Rightarrow> False | Inr n \<Rightarrow> n \<noteq> 0)"
| "stage_ok e p Open_rb = (case open_file e p of Inl _ \<Rightarrow> False | Inr _ \<Rightarrow> True)"
| "stage_ok e p Open_utf_16 =
     (case read_text e p of
        Inl _ \<Rightarrow> False
      | Inr content \<Rightarrow>
          can_print e (lit ''File content starts with: '' @ py_slice content 0 50 @ lit ''...''))"
| "stage_ok e p Json_loads = (case json_load e p of Inl _ \<Rightarrow> False | Inr _ \<Rightarrow> True)"
| "stage_ok e p Model_validate =
     (case json_load e p of
        Inl _ \<Rightarrow> False
      | Inr data \<Rightarrow>
          (case model_validate e data of
             Inl _ \<Rightarrow> False
           | Inr response \<Rightarrow> can_print e (model_str e response)))"

section \<open>A sample machine\<close>

text \<open>
  A little-endian machine with twelve files, used to run the scripts on concrete
  input. \<^verbatim>\<open>valid.json\<close> holds the document \<^verbatim>\<open>{"a": 1}\<close> in UTF-16 with a byte order
  mark; \<^verbatim>\<open>nobom_le.json\<close> and \<^verbatim>\<open>nobom_be.json\<close> hold it in little-endian and in
  big-endian UTF-16 without a byte order mark; \<^verbatim>\<open>broken.json\<close> holds the text without
  its closing brace; \<^verbatim>\<open>utf8.json\<close> holds the document in UTF-8; \<^verbatim>\<open>bad16.json\<close> holds a
  byte order mark and a lone low surrogate; \<^verbatim>\<open>empty.json\<close> holds nothing;
  \<^verbatim>\<open>locked.json\<close> may not be opened by the user who runs the script. \<^verbatim>\<open>escape.json\<close>
  holds a document whose string is a right arrow, U+2192, written as a JSON escape;
  \<^verbatim>\<open>arrow.json\<close> holds the same document with the arrow itself and without its closing
  brace; \<^verbatim>\<open>deep.json\<close> holds a hundred thousand opening brackets. The last file is
  empty and its name \<open>cafe_path\<close> has a byte that is not UTF-8, which Python reads as
  the lone surrogate U+DCE9. Every other path is missing, \<open>arrow_path\<close> among them.
  The parser answers as \<^verbatim>\<open>json.loads\<close> does on these texts; the schema accepts a
  document or not as \<open>accept\<close> says. Standard output is UTF-8, which writes every code
  point but the surrogates, on \<open>sample_env\<close> and Latin-1 on \<open>latin1_env\<close>.
\<close>

definition doc_text :: string where
  \<open>doc_text = ''{"a": 1}''\<close>

definition broken_text :: string where
  \<open>broken_text = ''{"a": 1''\<close>

definition escape_text :: ustr where
  \<open>escape_text = lit ''{"a": "'' @ [92] @ lit ''u2192"}''\<close>

definition arrow_text :: ustr where
  \<open>arrow_text = lit ''{"a": "'' @ [8594] @ lit ''"''\<close>

definition deep_text :: ustr where
  "deep_text = replicate 100000 91"

text \<open>ASCII text is its own UTF-8 encoding, one byte for each character.\<close>

definition ascii_bytes :: "string \<Rightarrow> byte list" where
  "ascii_bytes s = map of_char s"

definition utf8_doc :: "byte list" where
  "utf8_doc = ascii_bytes doc_text"

definition utf16_doc :: "byte list" where
  "utf16_doc = [0xFF, 0xFE, 0x7B, 0, 0x22, 0, 0x61, 0, 0x22, 0, 0x3A, 0, 0x20, 0, 0x31, 0, 0x7D, 0]"

definition utf16le_doc :: "byte list" where
  "utf16le_doc = [0x7B, 0, 0x22, 0, 0x61, 0, 0x22, 0, 0x3A, 0, 0x20, 0, 0x31, 0, 0x7D, 0]"

definition utf16be_doc :: "byte list" where
  "utf16be_doc = [0, 0x7B, 0, 0x22, 0, 0x61, 0, 0x22, 0, 0x3A, 0, 0x20, 0, 0x31, 0, 0x7D]"

definition utf16_broken :: "byte list" where
  "utf16_broken = [0xFF, 0xFE, 0x7B, 0, 0x22, 0, 0x61, 0, 0x22, 0, 0x3A, 0, 0x20, 0, 0x31, 0]"

definition utf16_bad :: "byte list" where
  "utf16_bad = [0xFF, 0xFE, 0x00, 0xDC]"

definition utf16_escape :: "byte list" where
  "utf16_escape =
     [0xFF, 0xFE, 0x7B, 0, 0x22, 0, 0x61, 0, 0x22, 0, 0x3A, 0, 0x20, 0, 0x22, 0, 0x5C, 0,
      0x75, 0, 0x32, 0, 0x31, 0, 0x39, 0, 0x32, 0, 0x22, 0, 0x7D, 0]"

definition utf16_arrow :: "byte list" where
  "utf16_arrow =
     [0xFF, 0xFE, 0x7B, 0, 0x22, 0, 0x61, 0, 0x22, 0, 0x3A, 0, 0x20, 0, 0x22, 0, 0x92, 0x21,
      0x22, 0]"

definition utf16_deep :: "byte list" where
  "utf16_deep = 0xFF # 0xFE # concat (replicate 100000 [0x5B, 0])"

definition cafe_path :: ustr where
  "cafe_path = lit ''caf'' @ [0xDCE9] @ lit ''.json''"

definition arrow_path :: ustr where
  "arrow_path = [8594] @ lit ''.json''"

definition no_such_file :: "ustr \<Rightarrow> exn" where
  "no_such_file path =
     Exn FileNotFoundError
       (lit ''[Errno 2] No such file or directory: '' @ apostrophe @ path @ apostrophe) 0"

definition permission_denied :: "ustr \<Rightarrow> exn" where
  "permission_denied path =
     Exn PermissionError
       (lit ''[Errno 13] Permission denied: '' @ apostrophe @ path @ apostrophe) 0"

definition sample_stat :: "ustr \<Rightarrow> exn + nat" where
  "sample_stat path =
     (if path = lit ''valid.json'' then Inr 18
      else if path = lit ''nobom_le.json'' then Inr 16
      else if path = lit ''nobom_be.json'' then Inr 16
      else if path = lit ''broken.json'' then Inr 16
      else if path = lit ''utf8.json'' then Inr 8
      else if path = lit ''bad16.json'' then Inr 4
      else if path = lit ''empty.json'' then Inr 0
      else if path = lit ''locked.json'' then Inr 18
      else if path = lit ''escape.json'' then Inr 32
      else if path = lit ''arrow.json'' then Inr 20
      else if path = lit ''deep.json'' then Inr 200002
      else if path = cafe_path then Inr 0
      else Inl (no_such_file path))"

definition sample_open :: "ustr \<Rightarrow> exn + byte list" where
  "sample_open path =
     (if path = lit ''valid.json'' then Inr utf16_doc
      else if path = lit ''nobom_le.json'' then Inr utf16le_doc
      else if path = lit ''nobom_be.json'' then Inr utf16be_doc
      else if path = lit ''broken.json'' then Inr utf16_broken
      else if path = lit ''utf8.json'' then Inr utf8_doc
      else if path = lit ''bad16.json'' then Inr utf16_bad
      else if path = lit ''empty.json'' then Inr []
      else if path = lit ''locked.json'' then Inl (permission_denied path)
      else if path = lit ''escape.json'' then Inr utf16_escape
      else if path = lit ''arrow.json'' then Inr utf16_arrow
      else if path = lit ''deep.json'' then Inr utf16_deep
      else if path = cafe_path then Inr []
      else Inl (no_such_file path))"

definition sample_loads :: "ustr \<Rightarrow> exn + nat" where
  "sample_loads content =
     (if content = lit doc_text then Inr 1
      else if content = escape_text then Inr 2
      else if content = lit broken_text then
        Inl (Exn JSONDecodeError
               (lit ''Expecting '' @ apostrophe @ lit '','' @ apostrophe
                @ lit '' delimiter: line 1 column 8 (char 7)'') 7)
      else if content = arrow_text then
        Inl (Exn JSONDecodeError
               (lit ''Expecting '' @ apostrophe @ lit '','' @ apostrophe
                @ lit '' delimiter: line 1 column 10 (char 9)'') 9)
      else if content = deep_text then
        Inl (Exn RecursionError
               (lit ''maximum recursion depth exceeded while decoding a JSON array from a unicode string'')
               0)
      else Inl (Exn JSONDecodeError (lit ''Expecting value: line 1 column 1 (char 0)'') 0))"

definition sample_validate :: "bool \<Rightarrow> nat \<Rightarrow> exn + nat" where
  "sample_validate accept data =
     (if accept then Inr data
      else Inl (Exn ValidationError (lit ''1 validation error for AddUpdateRequest'') 0))"

text \<open>The validated model prints its one field: \<^verbatim>\<open>a=1\<close>, or \<^verbatim>\<open>a=\<close> and the quoted arrow.\<close>

definition sample_str :: "nat \<Rightarrow> ustr" where
  "sample_str m = (if m = 2 then lit ''a='' @ apostrophe @ [8594] @ apostrophe else lit ''a=1'')"

text \<open>
  The text of the \<open>UnicodeEncodeError\<close> of a codec for a line with one character of the
  basic plane that it cannot write: the character, escaped, and its position.
\<close>

fun first_bad :: "(nat \<Rightarrow> bool) \<Rightarrow> nat \<Rightarrow> ustr \<Rightarrow> (nat \<times> nat) option" where
  "first_bad ok i [] = None"
| "first_bad ok i (c # cs) =
     (if c < 128 \<or> ok c then first_bad ok (Suc i) cs else Some (i, c))"

definition hex4 :: "nat \<Rightarrow> ustr" where
  "hex4 c = [hex_digit (c div 4096 mod 16), hex_digit (c div 256 mod 16),
             hex_digit (c div 16 mod 16), hex_digit (c mod 16)]"

definition codec_encode_error :: "string \<Rightarrow> string \<Rightarrow> (nat \<Rightarrow> bool) \<Rightarrow> ustr \<Rightarrow> ustr" where
  "codec_encode_error name reason ok s =
     (case first_bad ok 0 s of
        None \<Rightarrow> []
      | Some (i, c) \<Rightarrow>
          apostrophe @ lit name @ apostrophe @ lit '' codec can't encode character ''
          @ apostrophe @ [92, 117] @ hex4 c @ apostrophe
          @ lit '' in position '' @ str_nat i @ lit '': '' @ lit reason)"

definition utf8_stdout :: "nat \<Rightarrow> bool" where
  "utf8_stdout c = (\<not> is_surrogate c)"

definition latin1_stdout :: "nat \<Rightarrow> bool" where
  "latin1_stdout c = (c < 256)"

definition sample_env :: "bool \<Rightarrow> (nat, nat) env" where
  "sample_env accept =
     \<lparr>byteorder = Little, os_stat = sample_stat, open_file = sample_open,
      json_loads = sample_loads, model_validate = sample_validate accept,
      model_str = sample_str, stdout_encodes = utf8_stdout,
      encode_error_str = codec_encode_error ''utf-8'' ''surrogates not allowed'' utf8_stdout\<rparr>"

definition latin1_env :: "bool \<Rightarrow> (nat, nat) env" where
  "latin1_env accept =
     (sample_env accept)
       \<lparr>stdout_encodes := latin1_stdout,
        encode_error_str :=
          codec_encode_error ''latin-1'' ''ordinal not in range(256)'' latin1_stdout\<rparr>"

section \<open>Basic facts about the process state\<close>

lemma stdout_printed [simp]: "stdout (printed s w) = stdout w @ [s]"
  and logfile_printed [simp]: "logfile (printed s w) = logfile w"
  and calls_printed [simp]: "calls (printed s w) = calls w"
  by (simp_all add: printed_def)

lemma stdout_logging [simp]: "stdout (logging l s w) = stdout w"
  and logfile_logging [simp]: "logfile (logging l s w) = logfile w @ [(l, s)]"
  and calls_logging [simp]: "calls (logging l s w) = calls w"
  by (simp_all add: logging_def)

lemma stdout_called [simp]: "stdout (called c w) = stdout w"
  and logfile_called [simp]: "logfile (called c w) = logfile w"
  and calls_called [simp]: "calls (called c w) = calls w @ [c]"
  by (simp_all add: called_def)

lemma stdout_start [simp]: "stdout start = []"
  and logfile_start [simp]: "logfile start = []"
  and calls_start [simp]: "calls start = []"
  by (simp_all add: start_def)

lemma andthen_Return [simp]: "andthen (Return v, w) f = f v w"
  and andthen_Raise [simp]: "andthen (Raise x, w) f = (Raise x, w)"
  and andthen_Exit [simp]: "andthen (Exit n, w) f = (Exit n, w)"
  by (simp_all add: andthen_def)

subsection \<open>What standard output can print\<close>

lemma ascii_Nil [simp]: "ascii []"
  and ascii_Cons [simp]: "ascii (c # s) = (c < 128 \<and> ascii s)"
  and ascii_append [simp]: "ascii (s @ t) = (ascii s \<and> ascii t)"
  by (simp_all add: ascii_def)

lemma ascii_take: "ascii s \<Longrightarrow> ascii (take n s)"
  by (auto simp add: ascii_def list_all_iff dest: in_set_takeD)

lemma ascii_apostrophe [simp]: "ascii apostrophe"
  by (simp add: apostrophe_def)

lemma ascii_hex [simp]: "ascii (hex bs)"
proof (induction bs)
  case Nil
  then show ?case by simp
next
  case (Cons b bs)
  have "hex_digit d < 128" if "d < 16" for d
    using that by (simp add: hex_digit_def)
  then have "hex_digit (unat b div 16) < 128" and "hex_digit (unat b mod 16) < 128"
    using unsigned_less [of b, where 'a = nat] by simp_all
  with Cons show ?case by simp
qed

lemma ascii_str_nat [simp]: "ascii (str_nat n)"
proof (induction n rule: str_nat.induct)
  case (1 n)
  show ?case
  proof (cases "n < 10")
    case True
    then show ?thesis by (simp add: str_nat.simps [of n])
  next
    case False
    with "1" have "ascii (str_nat (n div 10))" by simp
    moreover have "48 + n mod 10 < 128" by simp
    ultimately show ?thesis
      using False by (simp add: str_nat.simps [of n])
  qed
qed

lemma ascii_str_int [simp]: "ascii (str_int i)"
  by (simp add: str_int_def)

lemma ascii_headings [simp]:
  "ascii (lit ''Valid JSON file'')"
  "ascii (lit ''Invalid JSON file: '')"
  "ascii (lit ''File not found: '')"
  "ascii (lit ''Error: '')"
  "ascii (lit ''Usage: python '')"
  "ascii (lit '' <json_file>'')"
  "ascii (lit ''Error: File '')"
  "ascii (lit '' does not exist'')"
  "ascii (lit '' is empty'')"
  "ascii (lit ''First bytes (hex): '')"
  "ascii (lit ''File content starts with: '')"
  "ascii (lit ''...'')"
  "ascii (lit ''JSON parsed successfully!'')"
  "ascii (lit ''JSON parsing error: '')"
  "ascii (lit ''Error at position '')"
  "ascii (lit '', near: '')"
  "ascii (lit ''File reading error: '')"
  "ascii (lit ''Data loaded into AddUpdateRequest model successfully!'')"
  "ascii (lit ''Error validating data against AddUpdateRequest model: '')"
  "ascii (lit ''UTF-16 stream does not start with BOM'')"
  "ascii (lit ''Invalid JSON file: UTF-16 stream does not start with BOM'')"
  by (simp_all add: lit_def)

lemma can_print_append [simp]: "can_print e (s @ t) = (can_print e s \<and> can_print e t)"
  by (simp add: can_print_def)

lemma ascii_can_print [simp]: "ascii s \<Longrightarrow> can_print e s"
  by (auto simp add: ascii_def can_print_def list_all_iff)

lemma print_ok: "can_print e s \<Longrightarrow> print e s w = (Return (), printed s w)"
  by (simp add: print_def)

lemma print_fails:
  "\<not> can_print e s \<Longrightarrow> print e s w = (Raise (Exn UnicodeEncodeError (encode_error_str e s) 0), w)"
  by (simp add: print_def)

section \<open>Facts about the \<^verbatim>\<open>utf-16\<close> codec\<close>

text \<open>Every failure of the decoder is a \<open>UnicodeError\<close>, hence a \<open>ValueError\<close>.\<close>

lemma decode_error_class [simp]: "exn_class (decode_error bo obj i j r) = UnicodeDecodeError"
  by (simp add: decode_error_def)

lemma decode_units_class:
  "utf_16_decode_units bo obj i q = Inl x \<Longrightarrow> exn_class x = UnicodeDecodeError"
proof (induction bo obj i q rule: utf_16_decode_units.induct)
  case (1 bo obj i)
  then show ?case by simp
next
  case (2 bo obj i b)
  then show ?case by auto
next
  case (3 bo obj i b0 b1 q)
  show ?case
  proof (cases "is_surrogate (code_unit bo b0 b1)")
    case False
    with "3.prems" have "utf_16_decode_units bo obj (i + 2) q = Inl x"
      by (simp split: sum.splits)
    with False "3.IH"(1) show ?thesis by simp
  next
    case surrogate: True
    show ?thesis
    proof (cases "is_high_surrogate (code_unit bo b0 b1)")
      case False
      with surrogate "3.prems" show ?thesis by auto
    next
      case high: True
      show ?thesis
      proof (cases q)
        case Nil
        with surrogate high "3.prems" show ?thesis by auto
      next
        case (Cons b2 q1)
        show ?thesis
        proof (cases q1)
          case Nil
          with Cons surrogate high "3.prems" show ?thesis by auto
        next
          case (Cons b3 q')
          note q = \<open>q = b2 # q1\<close> Cons
          show ?thesis
          proof (cases "is_low_surrogate (code_unit bo b2 b3)")
            case False
            with q surrogate high "3.prems" show ?thesis by auto
          next
            case True
            with q surrogate high "3.prems"
            have "utf_16_decode_units bo obj (i + 4) q' = Inl x"
              by (simp split: sum.splits)
            with True q surrogate high "3.IH"(2) show ?thesis by simp
          qed
        qed
      qed
    qed
  qed
qed

lemma buffer_decode_class:
  "buffer_decode native input = Inl x \<Longrightarrow> exn_class x \<in> {UnicodeDecodeError, UnicodeError}"
  by (auto simp add: buffer_decode_def utf_16_ex_decode_def dest: decode_units_class
      split: sum.splits list.splits if_splits option.splits
      simp del: utf_16_decode_units.simps)

lemma decode_utf_16_class:
  "decode_utf_16 native input = Inl x \<Longrightarrow> exn_class x \<in> {UnicodeDecodeError, UnicodeError}"
  by (auto simp add: decode_utf_16_def dest: buffer_decode_class split: sum.splits)

lemma decode_utf_16_ValueError:
  "decode_utf_16 native input = Inl x \<Longrightarrow> isinstance x ValueError \<and> isinstance x UnicodeError"
  by (drule decode_utf_16_class) (auto simp add: isinstance_def)

text \<open>The texts of the decoder's exceptions are ASCII.\<close>

lemma ascii_decode_error:
  "ascii (lit reason) \<Longrightarrow> ascii (exn_str (decode_error bo obj i j reason))"
proof -
  have "ascii (codec_name bo)"
    by (cases bo) (simp_all add: codec_name_def lit_def)
  moreover have "ascii (lit '' codec can't decode byte 0x'')"
    and "ascii (lit '' codec can't decode bytes in position '')"
    and "ascii (lit '' in position '')" and "ascii (lit ''-'')" and "ascii (lit '': '')"
    by (simp_all add: lit_def)
  moreover assume "ascii (lit reason)"
  ultimately show ?thesis
    by (simp add: decode_error_def del: hex.simps)
qed

lemma ascii_reasons [simp]:
  "ascii (lit ''truncated data'')"
  "ascii (lit ''illegal encoding'')"
  "ascii (lit ''illegal UTF-16 surrogate'')"
  "ascii (lit ''unexpected end of data'')"
  by (simp_all add: lit_def)

lemma decode_units_ascii:
  "utf_16_decode_units bo obj i q = Inl x \<Longrightarrow> ascii (exn_str x)"
proof (induction bo obj i q rule: utf_16_decode_units.induct)
  case (1 bo obj i)
  then show ?case by simp
next
  case (2 bo obj i b)
  then show ?case by (auto simp add: ascii_decode_error)
next
  case (3 bo obj i b0 b1 q)
  show ?case
  proof (cases "is_surrogate (code_unit bo b0 b1)")
    case False
    with "3.prems" have "utf_16_decode_units bo obj (i + 2) q = Inl x"
      by (simp split: sum.splits)
    with False "3.IH"(1) show ?thesis by simp
  next
    case surrogate: True
    show ?thesis
    proof (cases "is_high_surrogate (code_unit bo b0 b1)")
      case False
      with surrogate "3.prems" show ?thesis by (auto simp add: ascii_decode_error)
    next
      case high: True
      show ?thesis
      proof (cases q)
        case Nil
        with surrogate high "3.prems" show ?thesis by (auto simp add: ascii_decode_error)
      next
        case (Cons b2 q1)
        show ?thesis
        proof (cases q1)
          case Nil
          with Cons surrogate high "3.prems" show ?thesis by (auto simp add: ascii_decode_error)
        next
          case (Cons b3 q')
          note q = \<open>q = b2 # q1\<close> Cons
          show ?thesis
          proof (cases "is_low_surrogate (code_unit bo b2 b3)")
            case False
            with q surrogate high "3.prems" show ?thesis by (auto simp add: ascii_decode_error)
          next
            case True
            with q surrogate high "3.prems"
            have "utf_16_decode_units bo obj (i + 4) q' = Inl x"
              by (simp split: sum.splits)
            with True q surrogate high "3.IH"(2) show ?thesis by simp
          qed
        qed
      qed
    qed
  qed
qed

lemma decode_utf_16_ascii:
  "decode_utf_16 native input = Inl x \<Longrightarrow> ascii (exn_str x)"
  by (auto simp add: decode_utf_16_def buffer_decode_def utf_16_ex_decode_def
      dest: decode_units_ascii
      split: sum.splits list.splits if_splits option.splits
      simp del: utf_16_decode_units.simps)

text \<open>
  Text mode accepts only input that starts with a byte order mark, apart from the
  empty file.
\<close>

lemma decode_utf_16_needs_bom:
  assumes "decode_utf_16 native input = Inr s"
  shows "input = [] \<or> take 2 input = [0xFF, 0xFE] \<or> take 2 input = [0xFE, 0xFF]"
proof (cases input)
  case Nil
  then show ?thesis by simp
next
  case (Cons b0 rest)
  show ?thesis
  proof (cases rest)
    case Nil
    with Cons assms show ?thesis
      by (simp add: decode_utf_16_def buffer_decode_def utf_16_ex_decode_def split: sum.splits)
  next
    case (Cons b1 q)
    with \<open>input = b0 # rest\<close> assms show ?thesis
      by (auto simp add: decode_utf_16_def buffer_decode_def utf_16_ex_decode_def
          split: sum.splits if_splits option.splits simp del: utf_16_decode_units.simps)
  qed
qed

text \<open>With a byte order mark the rest is decoded in the order it names.\<close>

lemma decode_with_bom:
  assumes "(b0 = 0xFF \<and> b1 = 0xFE \<and> bo = Little) \<or> (b0 = 0xFE \<and> b1 = 0xFF \<and> bo = Big)"
    and "utf_16_decode_units bo (b0 # b1 # q) 2 q = Inr s"
  shows "decode_utf_16 native (b0 # b1 # q) = Inr (translate_newlines s)"
proof -
  from assms(1) consider (le) "b0 = 0xFF" "b1 = 0xFE" "bo = Little"
    | (be) "b0 = 0xFE" "b1 = 0xFF" "bo = Big"
    by blast
  then show ?thesis
  proof cases
    case le
    with assms(2) have "utf_16_decode_units Little (0xFF # 0xFE # q) 2 q = Inr s"
      by simp
    then have "utf_16_ex_decode native (0xFF # 0xFE # q)
        = Inr (s, length (0xFF # 0xFE # q), Some Little)"
      by (simp add: utf_16_ex_decode_def)
    then show ?thesis
      by (simp add: le decode_utf_16_def buffer_decode_def)
  next
    case be
    with assms(2) have "utf_16_decode_units Big (0xFE # 0xFF # q) 2 q = Inr s"
      by simp
    then have "utf_16_ex_decode native (0xFE # 0xFF # q)
        = Inr (s, length (0xFE # 0xFF # q), Some Big)"
      by (simp add: utf_16_ex_decode_def)
    then show ?thesis
      by (simp add: be decode_utf_16_def buffer_decode_def)
  qed
qed

section \<open>The sample machine, evaluated\<close>

lemma sample_env_fields [simp]:
  "byteorder (sample_env a) = Little"
  "os_stat (sample_env a) = sample_stat"
  "open_file (sample_env a) = sample_open"
  "json_loads (sample_env a) = sample_loads"
  "model_validate (sample_env a) = sample_validate a"
  "model_str (sample_env a) = sample_str"
  "stdout_encodes (sample_env a) = utf8_stdout"
  "encode_error_str (sample_env a)
     = codec_encode_error ''utf-8'' ''surrogates not allowed'' utf8_stdout"
  by (simp_all add: sample_env_def)

lemma latin1_env_fields [simp]:
  "byteorder (latin1_env a) = Little"
  "os_stat (latin1_env a) = sample_stat"
  "open_file (latin1_env a) = sample_open"
  "json_loads (latin1_env a) = sample_loads"
  "model_validate (latin1_env a) = sample_validate a"
  "model_str (latin1_env a) = sample_str"
  "stdout_encodes (latin1_env a) = latin1_stdout"
  "encode_error_str (latin1_env a)
     = codec_encode_error ''latin-1'' ''ordinal not in range(256)'' latin1_stdout"
  by (simp_all add: latin1_env_def)

lemma sample_sizes:
  "sample_stat (lit ''valid.json'') = Inr 18"
  "sample_stat (lit ''nobom_le.json'') = Inr 16"
  "sample_stat (lit ''nobom_be.json'') = Inr 16"
  "sample_stat (lit ''broken.json'') = Inr 16"
  "sample_stat (lit ''utf8.json'') = Inr 8"
  "sample_stat (lit ''bad16.json'') = Inr 4"
  "sample_stat (lit ''empty.json'') = Inr 0"
  "sample_stat (lit ''locked.json'') = Inr 18"
  "sample_stat (lit ''escape.json'') = Inr 32"
  "sample_stat (lit ''arrow.json'') = Inr 20"
  "sample_stat (lit ''deep.json'') = Inr 200002"
  "sample_stat cafe_path = Inr 0"
  "sample_stat (lit ''missing.json'') = Inl (no_such_file (lit ''missing.json''))"
  "sample_stat arrow_path = Inl (no_such_file arrow_path)"
  by (simp_all add: sample_stat_def lit_def cafe_path_def arrow_path_def)

lemma sample_files:
  "sample_open (lit ''valid.json'') = Inr utf16_doc"
  "sample_open (lit ''nobom_le.json'') = Inr utf16le_doc"
  "sample_open (lit ''nobom_be.json'') = Inr utf16be_doc"
  "sample_open (lit ''broken.json'') = Inr utf16_broken"
  "sample_open (lit ''utf8.json'') = Inr utf8_doc"
  "sample_open (lit ''bad16.json'') = Inr utf16_bad"
  "sample_open (lit ''empty.json'') = Inr []"
  "sample_open (lit ''locked.json'') = Inl (permission_denied (lit ''locked.json''))"
  "sample_open (lit ''escape.json'') = Inr utf16_escape"
  "sample_open (lit ''arrow.json'') = Inr utf16_arrow"
  "sample_open (lit ''deep.json'') = Inr utf16_deep"
  "sample_open cafe_path = Inr []"
  "sample_open (lit ''missing.json'') = Inl (no_such_file (lit ''missing.json''))"
  "sample_open arrow_path = Inl (no_such_file arrow_path)"
  by (simp_all add: sample_open_def lit_def cafe_path_def arrow_path_def)

lemmas decode_defs = decode_utf_16_def buffer_decode_def utf_16_ex_decode_def code_unit_def
  is_surrogate_def is_high_surrogate_def is_low_surrogate_def



lemma sample_decoded:
  "decode_utf_16 Little utf16_doc = Inr (lit doc_text)"
  "decode_utf_16 Little utf16_broken = Inr (lit broken_text)"
  "decode_utf_16 Little utf16_escape = Inr escape_text"
  "decode_utf_16 Little utf16_arrow = Inr arrow_text"
  "decode_utf_16 Little utf16_bad = Inl (decode_error Little utf16_bad 2 4 ''illegal encoding'')"
  "decode_utf_16 Little utf16le_doc
     = Inl (Exn UnicodeError (lit ''UTF-16 stream does not start with BOM'') 0)"
  "decode_utf_16 Little utf16be_doc
     = Inl (Exn UnicodeError (lit ''UTF-16 stream does not start with BOM'') 0)"
  by (simp_all add: utf16_doc_def utf16_broken_def utf16_escape_def utf16_arrow_def
      utf16_bad_def utf16le_doc_def utf16be_doc_def doc_text_def broken_text_def
      escape_text_def arrow_text_def lit_def decode_defs)


lemma sample_bad_message:
  "exn_str (decode_error Little utf16_bad 2 4 ''illegal encoding'')
     = apostrophe @ lit ''utf-16-le'' @ apostrophe
       @ lit '' codec can't decode bytes in position 2-3: illegal encoding''"
  by (simp add: decode_error_def utf16_bad_def codec_name_def lit_def str_nat.simps)

lemma deep_text_differs:
  "deep_text \<noteq> lit doc_text" "deep_text \<noteq> escape_text" "deep_text \<noteq> lit broken_text"
  "deep_text \<noteq> arrow_text"
proof -
  have "hd deep_text = 91"
    by (simp add: deep_text_def)
  moreover have "hd (lit doc_text) = 123" "hd escape_text = 123" "hd (lit broken_text) = 123"
    "hd arrow_text = 123"
    by (simp_all add: doc_text_def escape_text_def broken_text_def arrow_text_def lit_def)
  ultimately show "deep_text \<noteq> lit doc_text" "deep_text \<noteq> escape_text"
    "deep_text \<noteq> lit broken_text" "deep_text \<noteq> arrow_text"
    by auto
qed

lemma sample_parsed:
  "sample_loads (lit doc_text) = Inr 1"
  "sample_loads escape_text = Inr 2"
  "sample_loads (lit broken_text)
     = Inl (Exn JSONDecodeError
              (lit ''Expecting '' @ apostrophe @ lit '','' @ apostrophe
               @ lit '' delimiter: line 1 column 8 (char 7)'') 7)"
  "sample_loads arrow_text
     = Inl (Exn JSONDecodeError
              (lit ''Expecting '' @ apostrophe @ lit '','' @ apostrophe
               @ lit '' delimiter: line 1 column 10 (char 9)'') 9)"
  "sample_loads deep_text
     = Inl (Exn RecursionError
              (lit ''maximum recursion depth exceeded while decoding a JSON array from a unicode string'')
              0)"
  by (simp_all add: sample_loads_def deep_text_differs)
     (simp_all add: doc_text_def escape_text_def broken_text_def arrow_text_def lit_def)

lemma sample_previews:
  "hex (take 10 utf16_doc) = lit ''fffe7b00220061002200''"
  "hex (take 10 utf16_broken) = lit ''fffe7b00220061002200''"
  "hex (take 10 utf16_escape) = lit ''fffe7b00220061002200''"
  "hex (take 10 utf16_arrow) = lit ''fffe7b00220061002200''"
  "hex (take 10 utf16_bad) = lit ''fffe00dc''"
  by (simp_all add: utf16_doc_def utf16_broken_def utf16_escape_def utf16_arrow_def
      utf16_bad_def hex_digit_def lit_def)



section \<open>The Syntax Checker accepts UTF-16 text that parses\<close>

lemma check_file_one_argument: "check_file e prog [p] w = check_json_file e p w"
  by (simp add: check_file_def)

text \<open>
  Whatever the text layer decodes and the parser accepts is reported as valid.
\<close>

lemma decoded_json_accepted:
  assumes "open_file e p = Inr input"
    and "decode_utf_16 (byteorder e) input = Inr content"
    and "json_loads e content = Inr v"
  shows "check_file e prog [p] w = (Return (), printed (lit ''Valid JSON file'') w)"
  using assms
  by (simp add: check_file_def check_json_file_def json_load_def read_text_def print_ok)

text \<open>
  Text in UTF-16 without a byte order mark is not accepted, valid as it is. The sixteen
  bytes of \<^verbatim>\<open>nobom_le.json\<close> are the document \<^verbatim>\<open>{"a": 1}\<close> in little-endian UTF-16,
  those of \<^verbatim>\<open>nobom_be.json\<close> are the document in big-endian UTF-16, and the parser
  accepts the document; the Syntax Checker reports both files as invalid and exits
  with status 1.
\<close>

theorem utf16_without_bom_rejected:
  "utf_16_decode_units Little utf16le_doc 0 utf16le_doc = Inr (lit doc_text)
   \<and> utf_16_decode_units Big utf16be_doc 0 utf16be_doc = Inr (lit doc_text)
   \<and> json_loads (sample_env True) (lit doc_text) = Inr 1
   \<and> open_file (sample_env True) (lit ''nobom_le.json'') = Inr utf16le_doc
   \<and> open_file (sample_env True) (lit ''nobom_be.json'') = Inr utf16be_doc
   \<and> check_file (sample_env True) (lit ''check_file.py'') [lit ''nobom_le.json''] start
       = (Exit 1, printed (lit ''Invalid JSON file: UTF-16 stream does not start with BOM'') start)
   \<and> check_file (sample_env True) (lit ''check_file.py'') [lit ''nobom_be.json''] start
       = (Exit 1, printed (lit ''Invalid JSON file: UTF-16 stream does not start with BOM'') start)"
proof -
  have le: "utf_16_decode_units Little utf16le_doc 0 utf16le_doc = Inr (lit doc_text)"
    by (simp add: utf16le_doc_def doc_text_def lit_def code_unit_def is_surrogate_def)
  have be: "utf_16_decode_units Big utf16be_doc 0 utf16be_doc = Inr (lit doc_text)"
    by (simp add: utf16be_doc_def doc_text_def lit_def code_unit_def is_surrogate_def)
  have parse: "json_loads (sample_env True) (lit doc_text) = Inr 1"
    by (simp add: sample_parsed)
  have open_le: "open_file (sample_env True) (lit ''nobom_le.json'') = Inr utf16le_doc"
    and open_be: "open_file (sample_env True) (lit ''nobom_be.json'') = Inr utf16be_doc"
    by (simp_all add: sample_files)
  have heading: "lit ''Invalid JSON file: '' @ lit ''UTF-16 stream does not start with BOM''
      = lit ''Invalid JSON file: UTF-16 stream does not start with BOM''"
    by (simp add: lit_def)
  have run: "check_file (sample_env True) (lit ''check_file.py'') [path] start
       = (Exit 1, printed (lit ''Invalid JSON file: UTF-16 stream does not start with BOM'') start)"
    if "open_file (sample_env True) path = Inr input"
      and "decode_utf_16 Little input
             = Inl (Exn UnicodeError (lit ''UTF-16 stream does not start with BOM'') 0)"
    for path input
  proof -
    from that have "json_load (sample_env True) path
        = Inl (Exn UnicodeError (lit ''UTF-16 stream does not start with BOM'') 0)"
      by (simp add: json_load_def read_text_def)
    then show ?thesis
      by (simp add: check_file_def check_json_file_def isinstance_def print_ok sys_exit_def)
         (simp add: heading)
  qed
  show ?thesis
    by (intro conjI le be parse open_le open_be run [OF open_le sample_decoded(6)]
        run [OF open_be sample_decoded(7)])
qed

text \<open>
  Claim C1, amended. When the file at the path given as the one argument can be read,
  its bytes start with a byte order mark (FF FE for little-endian, FE FF for
  big-endian) and continue as well-formed UTF-16 in that byte order, and the decoded
  text, its line endings read as \<open>\n\<close>, parses as JSON, the Syntax Checker prints exactly
  the line \<^verbatim>\<open>Valid JSON file\<close> and ends with status 0.
\<close>

theorem utf16_json_with_bom_accepted:
  assumes "open_file e p = Inr (b0 # b1 # q)"
    and "(b0 = 0xFF \<and> b1 = 0xFE \<and> bo = Little) \<or> (b0 = 0xFE \<and> b1 = 0xFF \<and> bo = Big)"
    and "utf_16_decode_units bo (b0 # b1 # q) 2 q = Inr s"
    and "json_loads e (translate_newlines s) = Inr v"
  shows "check_file e prog [p] w = (Return (), printed (lit ''Valid JSON file'') w)
         \<and> stdout (snd (check_file e prog [p] start)) = [lit ''Valid JSON file'']
         \<and> exit_status (fst (check_file e prog [p] w)) = 0"
proof -
  from assms(2,3) have "decode_utf_16 (byteorder e) (b0 # b1 # q) = Inr (translate_newlines s)"
    by (rule decode_with_bom)
  from decoded_json_accepted [OF assms(1) this assms(4)]
  have "check_file e prog [p] w' = (Return (), printed (lit ''Valid JSON file'') w')" for w'
    by simp
  then show ?thesis by simp
qed

theorem utf16_json_with_bom_accepted_witness:
  "check_file (sample_env True) (lit ''check_file.py'') [lit ''valid.json''] start
     = (Return (), printed (lit ''Valid JSON file'') start)
   \<and> stdout (snd (check_file (sample_env True) (lit ''check_file.py'') [lit ''valid.json''] start))
       = [lit ''Valid JSON file'']
   \<and> exit_status
        (fst (check_file (sample_env True) (lit ''check_file.py'') [lit ''valid.json''] start)) = 0"
proof -
  have 1: "open_file (sample_env True) (lit ''valid.json'')
      = Inr (0xFF # 0xFE # [0x7B, 0, 0x22, 0, 0x61, 0, 0x22, 0, 0x3A, 0, 0x20, 0, 0x31, 0, 0x7D, 0])"
    by (simp add: sample_files utf16_doc_def)
  have 2: "((0xFF :: byte) = 0xFF \<and> (0xFE :: byte) = 0xFE \<and> Little = Little)
      \<or> ((0xFF :: byte) = 0xFE \<and> (0xFE :: byte) = 0xFF \<and> Little = Big)"
    by simp
  have 3: "utf_16_decode_units Little
        (0xFF # 0xFE # [0x7B, 0, 0x22, 0, 0x61, 0, 0x22, 0, 0x3A, 0, 0x20, 0, 0x31, 0, 0x7D, 0]) 2
        [0x7B, 0, 0x22, 0, 0x61, 0, 0x22, 0, 0x3A, 0, 0x20, 0, 0x31, 0, 0x7D, 0]
      = Inr (lit doc_text)"
    by (simp add: doc_text_def lit_def code_unit_def is_surrogate_def)
  have "translate_newlines (lit doc_text) = lit doc_text"
    by (simp add: doc_text_def lit_def)
  then have 4: "json_loads (sample_env True) (translate_newlines (lit doc_text)) = Inr 1"
    by (simp add: sample_parsed)
  show ?thesis
    by (rule utf16_json_with_bom_accepted [OF 1 2 3 4])
qed

section \<open>The diagnostics of the Syntax Checker\<close>

lemma lit_append: "lit (a @ b) = lit a @ lit b"
  by (simp add: lit_def)

lemma not_ValueError_and_FileNotFoundError:
  "\<not> (isinstance x ValueError \<and> isinstance x FileNotFoundError)"
  by (cases x; cases "exn_class x") (simp_all add: isinstance_def)

lemma value_error_classes:
  "exn_class x \<in> {JSONDecodeError, UnicodeDecodeError, UnicodeError} \<Longrightarrow> isinstance x ValueError"
  by (auto simp add: isinstance_def)

lemma prefix_invalid: "prefix (lit ''Invalid JSON file: '') (lit ''Invalid JSON file: '' @ s)"
  and prefix_invalid_nf: "\<not> prefix (lit ''Invalid JSON file: '') (lit ''File not found: '' @ s)"
  and prefix_invalid_er: "\<not> prefix (lit ''Invalid JSON file: '') (lit ''Error: '' @ s)"
  and prefix_nf: "prefix (lit ''File not found: '') (lit ''File not found: '' @ s)"
  and prefix_nf_invalid: "\<not> prefix (lit ''File not found: '') (lit ''Invalid JSON file: '' @ s)"
  and prefix_nf_er: "\<not> prefix (lit ''File not found: '') (lit ''Error: '' @ s)"
  and prefix_er: "prefix (lit ''Error: '') (lit ''Error: '' @ s)"
  and prefix_er_invalid: "\<not> prefix (lit ''Error: '') (lit ''Invalid JSON file: '' @ s)"
  and prefix_er_nf: "\<not> prefix (lit ''Error: '') (lit ''File not found: '' @ s)"
  by (simp_all add: lit_def)

lemma sublist_invalid: "sublist (lit ''Invalid JSON file'') (lit ''Invalid JSON file: '' @ s)"
proof -
  have "lit ''Invalid JSON file: '' @ s = lit ''Invalid JSON file'' @ (lit '': '' @ s)"
    by (simp add: lit_def)
  then show ?thesis by simp
qed

lemma sublist_nf: "sublist (lit ''File not found'') (lit ''File not found: '' @ s)"
proof -
  have "lit ''File not found: '' @ s = lit ''File not found'' @ (lit '': '' @ s)"
    by (simp add: lit_def)
  then show ?thesis by simp
qed

text \<open>The run fails exactly when reading and parsing the file raise.\<close>

lemma checker_fails_iff:
  "(fst (check_file e prog [p] w) \<noteq> Return ()) = (\<exists>x. json_load e p = Inl x)"
  by (cases "json_load e p")
     (simp_all add: check_file_def check_json_file_def print_def andthen_def sys_exit_def)

lemma checker_failure_status:
  "json_load e p = Inl x \<Longrightarrow> exit_status (fst (check_file e prog [p] w)) = 1"
  by (simp add: check_file_def check_json_file_def print_def andthen_def sys_exit_def)

lemma checker_failure_line:
  assumes "json_load e p = Inl x" and "can_print e (exn_str x)"
  shows "check_file e prog [p] w
     = (Exit 1,
        printed ((if isinstance x ValueError then lit ''Invalid JSON file: ''
                  else if isinstance x FileNotFoundError then lit ''File not found: ''
                  else lit ''Error: '') @ exn_str x) w)"
  using assms
  by (simp add: check_file_def check_json_file_def print_ok sys_exit_def)

text \<open>
  The line is not printed when standard output cannot encode the text of the
  exception. On the sample machine with a Latin-1 standard output the path \<open>arrow_path\<close>
  is missing and its name, which the text of the \<open>FileNotFoundError\<close> carries, has the
  arrow: the handler's own \<^verbatim>\<open>print\<close> raises, no diagnostic is printed and the exception
  leaves the script uncaught.
\<close>

theorem checker_diagnostic_not_printed:
  "json_load (latin1_env True) arrow_path = Inl (no_such_file arrow_path)
   \<and> isinstance (no_such_file arrow_path) FileNotFoundError
   \<and> check_file (latin1_env True) (lit ''check_file.py'') [arrow_path] start
       = (Raise (Exn UnicodeEncodeError
                   (apostrophe @ lit ''latin-1'' @ apostrophe
                    @ lit '' codec can't encode character '' @ apostrophe @ [92]
                    @ lit ''u2192'' @ apostrophe
                    @ lit '' in position 54: ordinal not in range(256)'') 0),
          start)
   \<and> stdout (snd (check_file (latin1_env True) (lit ''check_file.py'') [arrow_path] start)) = []"
proof -
  have load: "json_load (latin1_env True) arrow_path = Inl (no_such_file arrow_path)"
    by (simp add: json_load_def read_text_def sample_files)
  have cls: "isinstance (no_such_file arrow_path) FileNotFoundError"
    and not_value: "\<not> isinstance (no_such_file arrow_path) ValueError"
    by (simp_all add: no_such_file_def isinstance_def)
  have line: "lit ''File not found: '' @ exn_str (no_such_file arrow_path)
      = lit ''File not found: [Errno 2] No such file or directory: '' @ apostrophe
        @ [8594] @ lit ''.json'' @ apostrophe"
    by (simp add: no_such_file_def arrow_path_def lit_def)
  have no: "\<not> can_print (latin1_env True)
      (lit ''File not found: [Errno 2] No such file or directory: '' @ apostrophe
        @ [8594] @ lit ''.json'' @ apostrophe)"
    by (simp add: can_print_def latin1_stdout_def)
  have msg: "encode_error_str (latin1_env True)
      (lit ''File not found: [Errno 2] No such file or directory: '' @ apostrophe
        @ [8594] @ lit ''.json'' @ apostrophe)
      = apostrophe @ lit ''latin-1'' @ apostrophe
        @ lit '' codec can't encode character '' @ apostrophe @ [92]
        @ lit ''u2192'' @ apostrophe
        @ lit '' in position 54: ordinal not in range(256)''"
    by (simp add: codec_encode_error_def latin1_stdout_def apostrophe_def lit_def hex4_def
        hex_digit_def str_nat.simps)
  have "print (latin1_env True)
          (lit ''File not found: '' @ exn_str (no_such_file arrow_path)) start
       = (Raise (Exn UnicodeEncodeError
                   (apostrophe @ lit ''latin-1'' @ apostrophe
                    @ lit '' codec can't encode character '' @ apostrophe @ [92]
                    @ lit ''u2192'' @ apostrophe
                    @ lit '' in position 54: ordinal not in range(256)'') 0),
          start)"
    by (simp only: line print_fails [OF no] msg)
  then have run: "check_file (latin1_env True) (lit ''check_file.py'') [arrow_path] start
       = (Raise (Exn UnicodeEncodeError
                   (apostrophe @ lit ''latin-1'' @ apostrophe
                    @ lit '' codec can't encode character '' @ apostrophe @ [92]
                    @ lit ''u2192'' @ apostrophe
                    @ lit '' in position 54: ordinal not in range(256)'') 0),
          start)"
    by (simp add: check_file_def check_json_file_def load cls not_value)
  from load cls run show ?thesis
    by simp
qed

text \<open>
  Claim C4, amended. A run of the Syntax Checker with one argument fails exactly when
  reading and parsing the file raise an exception \<open>x\<close>, and then it ends with
  status 1. When standard output can encode the text of \<open>x\<close>, the run prints exactly one
  line before it exits: the text of \<open>x\<close> behind one of three headings,
  \<^verbatim>\<open>Invalid JSON file: \<close> for a \<open>ValueError\<close> (malformed JSON and encoding errors are such),
  \<^verbatim>\<open>File not found: \<close> for a \<open>FileNotFoundError\<close>, and \<^verbatim>\<open>Error: \<close> for everything else.
  The line starts with exactly one of the three headings, so the three diagnostics are
  distinct.
\<close>

theorem checker_failure_diagnostics:
  "(fst (check_file e prog [p] w) \<noteq> Return ()) = (\<exists>x. json_load e p = Inl x)
   \<and> (json_load e p = Inl x \<longrightarrow>
        exit_status (fst (check_file e prog [p] w)) = 1
        \<and> (can_print e (exn_str x) \<longrightarrow>
             (\<exists>line. check_file e prog [p] w = (Exit 1, printed line w)
                \<and> line = (if isinstance x ValueError then lit ''Invalid JSON file: ''
                           else if isinstance x FileNotFoundError then lit ''File not found: ''
                           else lit ''Error: '') @ exn_str x
                \<and> prefix (lit ''Invalid JSON file: '') line = isinstance x ValueError
                \<and> prefix (lit ''File not found: '') line = isinstance x FileNotFoundError
                \<and> prefix (lit ''Error: '') line
                    = (\<not> isinstance x ValueError \<and> \<not> isinstance x FileNotFoundError)
                \<and> (exn_class x \<in> {JSONDecodeError, UnicodeDecodeError, UnicodeError} \<longrightarrow>
                     sublist (lit ''Invalid JSON file'') line)
                \<and> (exn_class x = FileNotFoundError \<longrightarrow>
                     sublist (lit ''File not found'') line))))"
proof (intro conjI impI)
  show "(fst (check_file e prog [p] w) \<noteq> Return ()) = (\<exists>x. json_load e p = Inl x)"
    by (rule checker_fails_iff)
next
  assume "json_load e p = Inl x"
  then show "exit_status (fst (check_file e prog [p] w)) = 1"
    by (rule checker_failure_status)
next
  assume load: "json_load e p = Inl x" and enc: "can_print e (exn_str x)"
  have nf: "exn_class x = FileNotFoundError \<Longrightarrow>
      isinstance x FileNotFoundError \<and> \<not> isinstance x ValueError"
    by (simp add: isinstance_def)
  from checker_failure_line [OF load enc]
    not_ValueError_and_FileNotFoundError [of x] value_error_classes [of x] nf
  show "\<exists>line. check_file e prog [p] w = (Exit 1, printed line w)
      \<and> line = (if isinstance x ValueError then lit ''Invalid JSON file: ''
                 else if isinstance x FileNotFoundError then lit ''File not found: ''
                 else lit ''Error: '') @ exn_str x
      \<and> prefix (lit ''Invalid JSON file: '') line = isinstance x ValueError
      \<and> prefix (lit ''File not found: '') line = isinstance x FileNotFoundError
      \<and> prefix (lit ''Error: '') line
          = (\<not> isinstance x ValueError \<and> \<not> isinstance x FileNotFoundError)
      \<and> (exn_class x \<in> {JSONDecodeError, UnicodeDecodeError, UnicodeError} \<longrightarrow>
           sublist (lit ''Invalid JSON file'') line)
      \<and> (exn_class x = FileNotFoundError \<longrightarrow>
           sublist (lit ''File not found'') line)"
    by (auto simp add: prefix_invalid prefix_invalid_nf prefix_invalid_er prefix_nf
        prefix_nf_invalid prefix_nf_er prefix_er prefix_er_invalid prefix_er_nf sublist_invalid
        sublist_nf simp del: insert_iff)
qed

theorem checker_failure_diagnostics_witness:
  "check_file (sample_env True) (lit ''check_file.py'') [lit ''missing.json''] start
     = (Exit 1,
        printed (lit ''File not found: [Errno 2] No such file or directory: '' @ apostrophe
                 @ lit ''missing.json'' @ apostrophe) start)
   \<and> check_file (sample_env True) (lit ''check_file.py'') [lit ''broken.json''] start
     = (Exit 1,
        printed (lit ''Invalid JSON file: Expecting '' @ apostrophe @ lit '','' @ apostrophe
                 @ lit '' delimiter: line 1 column 8 (char 7)'') start)
   \<and> check_file (sample_env True) (lit ''check_file.py'') [lit ''locked.json''] start
     = (Exit 1,
        printed (lit ''Error: [Errno 13] Permission denied: '' @ apostrophe
                 @ lit ''locked.json'' @ apostrophe) start)
   \<and> fst (check_file (sample_env True) (lit ''check_file.py'') [lit ''valid.json''] start)
     = Return ()"
proof -
  let ?e = "sample_env True" and ?prog = "lit ''check_file.py''"
  let ?jde = "Exn JSONDecodeError
                (lit ''Expecting '' @ apostrophe @ lit '','' @ apostrophe
                 @ lit '' delimiter: line 1 column 8 (char 7)'') 7"
  have missing: "json_load ?e (lit ''missing.json'') = Inl (no_such_file (lit ''missing.json''))"
    and broken: "json_load ?e (lit ''broken.json'') = Inl ?jde"
    and locked: "json_load ?e (lit ''locked.json'') = Inl (permission_denied (lit ''locked.json''))"
    and valid: "json_load ?e (lit ''valid.json'') = Inr 1"
    by (simp_all add: json_load_def read_text_def sample_files sample_decoded sample_parsed)
  have enc: "can_print ?e (exn_str (no_such_file (lit ''missing.json'')))"
    "can_print ?e (exn_str ?jde)"
    "can_print ?e (exn_str (permission_denied (lit ''locked.json'')))"
    by (simp_all add: no_such_file_def permission_denied_def) (simp_all add: lit_def)
  have cls: "\<not> isinstance (no_such_file (lit ''missing.json'')) ValueError"
    "isinstance (no_such_file (lit ''missing.json'')) FileNotFoundError"
    "isinstance ?jde ValueError"
    "\<not> isinstance (permission_denied (lit ''locked.json'')) ValueError"
    "\<not> isinstance (permission_denied (lit ''locked.json'')) FileNotFoundError"
    by (simp_all add: no_such_file_def permission_denied_def isinstance_def)
  have shown: "lit ''File not found: '' @ exn_str (no_such_file (lit ''missing.json''))
      = lit ''File not found: [Errno 2] No such file or directory: '' @ apostrophe
        @ lit ''missing.json'' @ apostrophe"
    "lit ''Invalid JSON file: '' @ exn_str ?jde
      = lit ''Invalid JSON file: Expecting '' @ apostrophe @ lit '','' @ apostrophe
        @ lit '' delimiter: line 1 column 8 (char 7)''"
    "lit ''Error: '' @ exn_str (permission_denied (lit ''locked.json''))
      = lit ''Error: [Errno 13] Permission denied: '' @ apostrophe
        @ lit ''locked.json'' @ apostrophe"
    by (simp_all add: no_such_file_def permission_denied_def lit_def)
  from checker_failure_diagnostics
         [where e = ?e and prog = ?prog and w = start and p = "lit ''missing.json''"
            and x = "no_such_file (lit ''missing.json'')"]
       missing enc(1) cls(1,2) shown(1)
  have 1: "check_file ?e ?prog [lit ''missing.json''] start
     = (Exit 1,
        printed (lit ''File not found: [Errno 2] No such file or directory: '' @ apostrophe
                 @ lit ''missing.json'' @ apostrophe) start)"
    by (simp del: can_print_append append_assoc)
  from checker_failure_diagnostics
         [where e = ?e and prog = ?prog and w = start and p = "lit ''broken.json''"
            and x = ?jde]
       broken enc(2) cls(3) shown(2)
  have 2: "check_file ?e ?prog [lit ''broken.json''] start
     = (Exit 1,
        printed (lit ''Invalid JSON file: Expecting '' @ apostrophe @ lit '','' @ apostrophe
                 @ lit '' delimiter: line 1 column 8 (char 7)'') start)"
    by (simp del: can_print_append append_assoc)
  from checker_failure_diagnostics
         [where e = ?e and prog = ?prog and w = start and p = "lit ''locked.json''"
            and x = "permission_denied (lit ''locked.json'')"]
       locked enc(3) cls(4,5) shown(3)
  have 3: "check_file ?e ?prog [lit ''locked.json''] start
     = (Exit 1,
        printed (lit ''Error: [Errno 13] Permission denied: '' @ apostrophe
                 @ lit ''locked.json'' @ apostrophe) start)"
    by (simp del: can_print_append append_assoc)
  from checker_failure_diagnostics
         [where e = ?e and prog = ?prog and w = start and p = "lit ''valid.json''"]
       valid
  have 4: "fst (check_file ?e ?prog [lit ''valid.json''] start) = Return ()"
    by simp
  from 1 2 3 4 show ?thesis
    by (intro conjI)
qed

section \<open>The Syntax Checker reads UTF-16 only\<close>

lemma utf8_doc_bytes: "utf8_doc = [0x7B, 0x22, 0x61, 0x22, 0x3A, 0x20, 0x31, 0x7D]"
  by (simp add: utf8_doc_def ascii_bytes_def doc_text_def)

lemma decode_utf8_doc:
  "decode_utf_16 native utf8_doc
     = Inl (Exn UnicodeError (lit ''UTF-16 stream does not start with BOM'') 0)"
  by (cases native)
     (simp_all add: utf8_doc_bytes decode_utf_16_def buffer_decode_def utf_16_ex_decode_def
        code_unit_def is_surrogate_def)

text \<open>
  Claim C9. The eight bytes of the JSON document \<^verbatim>\<open>{"a": 1}\<close> in UTF-8 are a file that
  the Syntax Checker rejects, whatever the parser would say about the text: decoding
  fails, the line \<^verbatim>\<open>Invalid JSON file: UTF-16 stream does not start with BOM\<close> is
  printed and the status is 1. A file that the checker accepts has decoded under the
  \<^verbatim>\<open>utf-16\<close> codec: it is empty or starts with a UTF-16 byte order mark.
\<close>

theorem utf8_document_rejected:
  "(open_file e p = Inr utf8_doc \<longrightarrow>
      check_file e prog [p] w
        = (Exit 1, printed (lit ''Invalid JSON file: UTF-16 stream does not start with BOM'') w))
   \<and> (fst (check_file e prog [p] w) = Return () \<longrightarrow>
        (\<exists>input content. open_file e p = Inr input
           \<and> decode_utf_16 (byteorder e) input = Inr content
           \<and> (input = [] \<or> take 2 input = [0xFF, 0xFE] \<or> take 2 input = [0xFE, 0xFF])))"
proof (intro conjI impI)
  assume "open_file e p = Inr utf8_doc"
  then have "json_load e p = Inl (Exn UnicodeError (lit ''UTF-16 stream does not start with BOM'') 0)"
    by (simp add: json_load_def read_text_def decode_utf8_doc)
  moreover have "lit ''Invalid JSON file: '' @ lit ''UTF-16 stream does not start with BOM''
      = lit ''Invalid JSON file: UTF-16 stream does not start with BOM''"
    by (simp add: lit_def)
  ultimately show "check_file e prog [p] w
        = (Exit 1, printed (lit ''Invalid JSON file: UTF-16 stream does not start with BOM'') w)"
    by (simp add: check_file_def check_json_file_def isinstance_def print_ok sys_exit_def)
next
  assume ok: "fst (check_file e prog [p] w) = Return ()"
  with checker_fails_iff [of e prog p w] obtain v where "json_load e p = Inr v"
    by (cases "json_load e p") auto
  then obtain input content where i: "open_file e p = Inr input"
    and c: "decode_utf_16 (byteorder e) input = Inr content"
    by (auto simp add: json_load_def read_text_def split: sum.splits)
  from decode_utf_16_needs_bom [OF c] i c
  show "\<exists>input content. open_file e p = Inr input
           \<and> decode_utf_16 (byteorder e) input = Inr content
           \<and> (input = [] \<or> take 2 input = [0xFF, 0xFE] \<or> take 2 input = [0xFE, 0xFF])"
    by blast
qed

theorem utf8_document_rejected_witness:
  "check_file (sample_env True) (lit ''check_file.py'') [lit ''utf8.json''] start
     = (Exit 1, printed (lit ''Invalid JSON file: UTF-16 stream does not start with BOM'') start)
   \<and> (\<exists>input content. open_file (sample_env True) (lit ''valid.json'') = Inr input
         \<and> decode_utf_16 (byteorder (sample_env True)) input = Inr content
         \<and> (input = [] \<or> take 2 input = [0xFF, 0xFE] \<or> take 2 input = [0xFE, 0xFF]))"
proof -
  have 1: "open_file (sample_env True) (lit ''utf8.json'') = Inr utf8_doc"
    by (simp add: sample_files)
  have 2: "fst (check_file (sample_env True) (lit ''check_file.py'') [lit ''valid.json''] start)
      = Return ()"
    by (simp add: check_file_def check_json_file_def json_load_def read_text_def sample_files
        sample_decoded sample_parsed print_ok)
  from 1 2 utf8_document_rejected [of "sample_env True" "lit ''utf8.json''" "lit ''check_file.py''" start]
    utf8_document_rejected [of "sample_env True" "lit ''valid.json''" "lit ''check_file.py''" start]
  show ?thesis by blast
qed

section \<open>The Schema Validator, stage by stage\<close>

lemmas validator_defs =
  verify_json_file_def main_def validate_model_def validate_and_load_json_def
  try_read_and_parse_def read_and_parse_def parse_content_def loads_content_def read_text_def
  os_path_exists_def os_path_getsize_def sys_exit_def

lemmas proc_defs = start_def printed_def called_def logging_def

lemmas stage_defs =
  main_def validate_model_def validate_and_load_json_def try_read_and_parse_def
  read_and_parse_def parse_content_def loads_content_def os_path_exists_def
  os_path_getsize_def pipeline_def json_load_def sys_exit_def print_def andthen_def

lemma verify_json_file_one_argument: "verify_json_file e prog [p] w = main e p w"
  by (simp add: verify_json_file_def)

lemma slice_from_start: "py_slice xs 0 (int k) = take k xs"
  by (simp add: py_slice_def slice_bound_def min_def)

lemma can_print_take: "can_print e s \<Longrightarrow> can_print e (take n s)"
  by (auto simp add: can_print_def list_all_iff dest: in_set_takeD)

lemma can_print_drop: "can_print e s \<Longrightarrow> can_print e (drop n s)"
  by (auto simp add: can_print_def list_all_iff dest: in_set_dropD)

subsection \<open>An empty file\<close>

lemma sublist_is_empty: "sublist (lit ''is empty'') (s @ lit '' is empty'')"
proof -
  have "s @ lit '' is empty'' = (s @ lit '' '') @ lit ''is empty''"
    by (simp add: lit_def)
  then show ?thesis
    by (simp only: sublist_append_leftI)
qed

text \<open>
  The message is not printed when standard output cannot encode the path. On the
  sample machine the file \<open>cafe_path\<close> exists and is empty, and its name has a lone
  surrogate, which UTF-8 cannot write: the \<^verbatim>\<open>print\<close> of line 18, outside every \<^verbatim>\<open>try\<close>,
  raises, and nothing is printed.
\<close>

theorem empty_file_message_not_printed:
  "os_stat (sample_env True) cafe_path = Inr 0
   \<and> verify_json_file (sample_env True) (lit ''verify_json_file.py'') [cafe_path] start
       = (Raise (Exn UnicodeEncodeError
                   (apostrophe @ lit ''utf-8'' @ apostrophe
                    @ lit '' codec can't encode character '' @ apostrophe @ [92]
                    @ lit ''udce9'' @ apostrophe
                    @ lit '' in position 16: surrogates not allowed'') 0),
          \<lparr>stdout = [], logfile = [], calls = [Os_path_exists, Os_path_getsize]\<rparr>)"
proof -
  let ?line = "lit ''Error: File '' @ apostrophe @ cafe_path @ apostrophe @ lit '' is empty''"
  have no: "\<not> can_print (sample_env True) ?line"
    by (simp add: can_print_def cafe_path_def utf8_stdout_def is_surrogate_def)
  have msg: "encode_error_str (sample_env True) ?line
      = apostrophe @ lit ''utf-8'' @ apostrophe
        @ lit '' codec can't encode character '' @ apostrophe @ [92]
        @ lit ''udce9'' @ apostrophe
        @ lit '' in position 16: surrogates not allowed''"
    by (simp add: codec_encode_error_def utf8_stdout_def is_surrogate_def cafe_path_def
        apostrophe_def lit_def hex4_def hex_digit_def str_nat.simps)
  have p: "print (sample_env True) ?line w
      = (Raise (Exn UnicodeEncodeError
                   (apostrophe @ lit ''utf-8'' @ apostrophe
                    @ lit '' codec can't encode character '' @ apostrophe @ [92]
                    @ lit ''udce9'' @ apostrophe
                    @ lit '' in position 16: surrogates not allowed'') 0), w)" for w
    by (simp only: print_fails [OF no] msg)
  show ?thesis
    by (simp add: validator_defs sample_sizes p proc_defs)
qed

text \<open>
  Claim C6, amended. For a path whose size is zero the Schema Validator ends with
  status 1 after the existence and emptiness checks: the file is neither opened for
  decoding nor parsed, and nothing is logged. When standard output can encode the
  path, the run prints the single line \<^verbatim>\<open>Error: File '<path>' is empty\<close>, which contains
  \<^verbatim>\<open>is empty\<close>.
\<close>

theorem empty_file_rejected:
  assumes "os_stat e p = Inr 0"
  shows "exit_status (fst (verify_json_file e prog [p] start)) = 1
         \<and> calls (snd (verify_json_file e prog [p] start)) = [Os_path_exists, Os_path_getsize]
         \<and> logfile (snd (verify_json_file e prog [p] start)) = []
         \<and> Open_utf_16 \<notin> set (calls (snd (verify_json_file e prog [p] start)))
         \<and> Json_loads \<notin> set (calls (snd (verify_json_file e prog [p] start)))
         \<and> (can_print e p \<longrightarrow>
              verify_json_file e prog [p] start
                = (Exit 1,
                   \<lparr>stdout = [lit ''Error: File '' @ apostrophe @ p @ apostrophe
                               @ lit '' is empty''],
                    logfile = [], calls = [Os_path_exists, Os_path_getsize]\<rparr>)
              \<and> sublist (lit ''is empty'')
                   (lit ''Error: File '' @ apostrophe @ p @ apostrophe @ lit '' is empty''))"
proof -
  have always: "exit_status (fst (verify_json_file e prog [p] start)) = 1
         \<and> calls (snd (verify_json_file e prog [p] start)) = [Os_path_exists, Os_path_getsize]
         \<and> logfile (snd (verify_json_file e prog [p] start)) = []"
    using assms by (simp add: validator_defs print_def Let_def)
  have run: "verify_json_file e prog [p] start
           = (Exit 1,
              \<lparr>stdout = [lit ''Error: File '' @ apostrophe @ p @ apostrophe @ lit '' is empty''],
               logfile = [], calls = [Os_path_exists, Os_path_getsize]\<rparr>)" if "can_print e p"
    using assms that by (simp add: validator_defs print_ok Let_def proc_defs)
  have "sublist (lit ''is empty'')
          ((lit ''Error: File '' @ apostrophe @ p @ apostrophe) @ lit '' is empty'')"
    by (rule sublist_is_empty)
  with always run show ?thesis by simp
qed

theorem empty_file_rejected_witness:
  "verify_json_file (sample_env True) (lit ''verify_json_file.py'') [lit ''empty.json''] start
           = (Exit 1,
              \<lparr>stdout = [lit ''Error: File '' @ apostrophe @ lit ''empty.json'' @ apostrophe
                          @ lit '' is empty''],
               logfile = [], calls = [Os_path_exists, Os_path_getsize]\<rparr>)
         \<and> sublist (lit ''is empty'')
              (lit ''Error: File '' @ apostrophe @ lit ''empty.json'' @ apostrophe @ lit '' is empty'')
         \<and> exit_status (fst (verify_json_file (sample_env True) (lit ''verify_json_file.py'')
               [lit ''empty.json''] start)) = 1
         \<and> Open_utf_16 \<notin> set (calls (snd (verify_json_file (sample_env True)
               (lit ''verify_json_file.py'') [lit ''empty.json''] start)))
         \<and> Json_loads \<notin> set (calls (snd (verify_json_file (sample_env True)
               (lit ''verify_json_file.py'') [lit ''empty.json''] start)))"
proof -
  have 1: "os_stat (sample_env True) (lit ''empty.json'') = Inr 0"
    by (simp add: sample_sizes)
  have 2: "can_print (sample_env True) (lit ''empty.json'')"
    by (simp add: ascii_def lit_def)
  from empty_file_rejected [OF 1, of "lit ''verify_json_file.py''"] 2
  show ?thesis by blast
qed

subsection \<open>The raw byte preview\<close>

text \<open>
  When the file can be opened, the preview prints the hexadecimal digits of its first
  ten bytes, or of all its bytes when there are fewer.
\<close>

lemma stdout_try_read_and_parse:
  "\<exists>rest. stdout (snd (try_read_and_parse e p w)) = stdout w @ rest"
  by (simp add: try_read_and_parse_def read_and_parse_def parse_content_def loads_content_def
      sys_exit_def print_def andthen_def Let_def
      split: sum.splits prod.splits result.splits if_splits)

lemma stdout_main:
  "\<exists>rest. stdout (snd (main e p w)) = stdout (snd (validate_and_load_json e p w)) @ rest"
proof (cases "validate_and_load_json e p w")
  case (Pair r w1)
  then show ?thesis
    by (cases r)
       (simp_all add: main_def validate_model_def sys_exit_def print_def andthen_def Let_def
          split: sum.splits)
qed

lemma preview_of_readable_file:
  assumes "os_stat e p = Inr n" and "n \<noteq> 0" and "open_file e p = Inr input"
  shows "\<exists>rest. stdout (snd (verify_json_file e prog [p] start))
           = (lit ''First bytes (hex): '' @ hex (take 10 input)) # rest"
proof -
  let ?w = "printed (lit ''First bytes (hex): '' @ hex (take 10 input))
              (called Open_rb (called Os_path_getsize (called Os_path_exists start)))"
  from assms have "validate_and_load_json e p start = try_read_and_parse e p ?w"
    by (simp add: validate_and_load_json_def os_path_exists_def os_path_getsize_def print_ok)
  with stdout_try_read_and_parse [of e p ?w]
  obtain rest where "stdout (snd (validate_and_load_json e p start))
      = (lit ''First bytes (hex): '' @ hex (take 10 input)) # rest"
    by auto
  with stdout_main [of e p start] show ?thesis
    by (auto simp add: verify_json_file_one_argument)
qed

lemma length_hex: "length (hex bs) = 2 * length bs"
  by (induction bs) simp_all

text \<open>
  Claim C8. The preview stage does fail: \<^verbatim>\<open>open(source_file, 'rb')\<close> stands outside
  every \<^verbatim>\<open>try\<close>. On the sample machine \<^verbatim>\<open>locked.json\<close> exists with 18 bytes, but
  opening it raises \<open>PermissionError\<close>; the run prints no preview, and the exception
  leaves the script uncaught.
\<close>

theorem preview_fails_on_unreadable_file:
  "os_stat (sample_env True) (lit ''locked.json'') = Inr 18
   \<and> verify_json_file (sample_env True) (lit ''verify_json_file.py'') [lit ''locked.json''] start
       = (Raise (permission_denied (lit ''locked.json'')),
          \<lparr>stdout = [], logfile = [], calls = [Os_path_exists, Os_path_getsize, Open_rb]\<rparr>)"
  by (simp add: validator_defs sample_sizes sample_files proc_defs)

subsection \<open>Bytes that are not UTF-16\<close>

lemma not_json_heading:
  "\<not> prefix (lit ''JSON parsing error'') (lit ''First bytes (hex): '' @ s)"
  "\<not> prefix (lit ''JSON parsing error'') (lit ''File reading error: '' @ s)"
  by (simp_all add: lit_def)

text \<open>
  Claim C7. For an existing, non-empty, readable file whose bytes the \<^verbatim>\<open>utf-16\<close> codec
  refuses with the exception \<open>x\<close>, the Schema Validator prints the byte preview and then
  \<^verbatim>\<open>File reading error: \<close> followed by the text of \<open>x\<close>, and exits with status 1. The
  exception is a \<open>UnicodeError\<close>, the parser is never called, and no printed line is a
  JSON parsing error.
\<close>

theorem undecodable_file_reported_as_reading_error:
  assumes "os_stat e p = Inr n" and "n \<noteq> 0"
    and "open_file e p = Inr input"
    and "decode_utf_16 (byteorder e) input = Inl x"
  shows "verify_json_file e prog [p] start
           = (Exit 1,
              \<lparr>stdout = [lit ''First bytes (hex): '' @ hex (take 10 input),
                         lit ''File reading error: '' @ exn_str x],
               logfile = [],
               calls = [Os_path_exists, Os_path_getsize, Open_rb, Open_utf_16]\<rparr>)
         \<and> isinstance x UnicodeError
         \<and> \<not> list_ex (prefix (lit ''JSON parsing error''))
               (stdout (snd (verify_json_file e prog [p] start)))"
proof -
  from assms(4) have "ascii (exn_str x)"
    by (rule decode_utf_16_ascii)
  with assms have run: "verify_json_file e prog [p] start
           = (Exit 1,
              \<lparr>stdout = [lit ''First bytes (hex): '' @ hex (take 10 input),
                         lit ''File reading error: '' @ exn_str x],
               logfile = [],
               calls = [Os_path_exists, Os_path_getsize, Open_rb, Open_utf_16]\<rparr>)"
    by (simp add: validator_defs print_ok proc_defs)
  from assms(4) have "isinstance x UnicodeError"
    by (simp add: decode_utf_16_ValueError)
  with run show ?thesis
    by (simp add: not_json_heading)
qed

theorem undecodable_file_reported_as_reading_error_witness:
  "verify_json_file (sample_env True) (lit ''verify_json_file.py'') [lit ''bad16.json''] start
     = (Exit 1,
        \<lparr>stdout = [lit ''First bytes (hex): fffe00dc'',
                   lit ''File reading error: '' @ apostrophe @ lit ''utf-16-le'' @ apostrophe
                     @ lit '' codec can't decode bytes in position 2-3: illegal encoding''],
         logfile = [],
         calls = [Os_path_exists, Os_path_getsize, Open_rb, Open_utf_16]\<rparr>)"
proof -
  have 1: "os_stat (sample_env True) (lit ''bad16.json'') = Inr 4" and 2: "(4::nat) \<noteq> 0"
    and 3: "open_file (sample_env True) (lit ''bad16.json'') = Inr utf16_bad"
    and 4: "decode_utf_16 (byteorder (sample_env True)) utf16_bad
              = Inl (decode_error Little utf16_bad 2 4 ''illegal encoding'')"
    by (simp_all add: sample_sizes sample_files sample_decoded)
  have "lit ''First bytes (hex): '' @ hex (take 10 utf16_bad) = lit ''First bytes (hex): fffe00dc''"
    by (simp only: sample_previews) (simp add: lit_def)
  with undecodable_file_reported_as_reading_error [OF 1 2 3 4, of "lit ''verify_json_file.py''"]
    sample_bad_message
  show ?thesis by simp
qed

subsection \<open>The order of the stages\<close>

lemma calls_main:
  "calls (snd (main e p w))
     = calls w @ take (Suc (length (takeWhile (stage_ok e p) pipeline))) pipeline"
  by (simp add: stage_defs proc_defs Let_def
      split: sum.splits prod.splits result.splits if_splits)

lemma return_main:
  "(fst (main e p w) = Return ()) = list_all (stage_ok e p) pipeline"
  by (simp add: stage_defs proc_defs Let_def
      split: sum.splits prod.splits result.splits if_splits)

lemma status_main:
  "exit_status (fst (main e p w)) = (if list_all (stage_ok e p) pipeline then 0 else 1)"
  by (simp add: stage_defs proc_defs Let_def
      split: sum.splits prod.splits result.splits if_splits)

text \<open>
  Claim C5. A run of the Schema Validator on a path performs the stages in the fixed
  order existence check, emptiness check, byte preview, decoding, parsing and schema
  validation, each at most once, up to and including the first stage that does not
  pass, and no stage after it. The run ends with status 0 when all six stages pass
  and with status 1 otherwise. A run with another number of arguments performs no
  stage and ends with status 1.
\<close>

theorem stages_run_in_order:
  "calls (snd (verify_json_file e prog [p] w))
     = calls w @ take (Suc (length (takeWhile (stage_ok e p) pipeline))) pipeline
   \<and> (fst (verify_json_file e prog [p] w) = Return ()) = list_all (stage_ok e p) pipeline
   \<and> exit_status (fst (verify_json_file e prog [p] w))
       = (if list_all (stage_ok e p) pipeline then 0 else 1)
   \<and> (length args \<noteq> 1 \<longrightarrow>
        calls (snd (verify_json_file e prog args w)) = calls w
        \<and> exit_status (fst (verify_json_file e prog args w)) = 1)"
proof -
  have "calls (snd (verify_json_file e prog args w)) = calls w
        \<and> exit_status (fst (verify_json_file e prog args w)) = 1" if "length args \<noteq> 1"
    using that
    by (simp add: verify_json_file_def print_def andthen_def sys_exit_def proc_defs)
  then show ?thesis
    by (simp only: verify_json_file_one_argument calls_main return_main status_main) simp
qed

theorem stages_run_in_order_witness:
  "calls (snd (verify_json_file (sample_env True) (lit ''verify_json_file.py'')
                 [lit ''bad16.json''] start))
     = [Os_path_exists, Os_path_getsize, Open_rb, Open_utf_16]
   \<and> exit_status (fst (verify_json_file (sample_env True) (lit ''verify_json_file.py'')
                          [lit ''bad16.json''] start)) = 1
   \<and> calls (snd (verify_json_file (sample_env True) (lit ''verify_json_file.py'')
                 [lit ''valid.json''] start)) = pipeline
   \<and> exit_status (fst (verify_json_file (sample_env True) (lit ''verify_json_file.py'')
                          [lit ''valid.json''] start)) = 0
   \<and> calls (snd (verify_json_file (latin1_env True) (lit ''verify_json_file.py'')
                 [lit ''arrow.json''] start))
     = [Os_path_exists, Os_path_getsize, Open_rb, Open_utf_16]
   \<and> exit_status (fst (verify_json_file (latin1_env True) (lit ''verify_json_file.py'')
                          [lit ''arrow.json''] start)) = 1
   \<and> calls (snd (verify_json_file (latin1_env True) (lit ''verify_json_file.py'')
                 [lit ''escape.json''] start)) = pipeline
   \<and> exit_status (fst (verify_json_file (latin1_env True) (lit ''verify_json_file.py'')
                          [lit ''escape.json''] start)) = 1
   \<and> calls (snd (verify_json_file (sample_env True) (lit ''verify_json_file.py'') [] start)) = []
   \<and> exit_status (fst (verify_json_file (sample_env True) (lit ''verify_json_file.py'') []
                          start)) = 1"
proof -
  have bad: "takeWhile (stage_ok (sample_env True) (lit ''bad16.json'')) pipeline
      = [Os_path_exists, Os_path_getsize, Open_rb]"
    by (simp add: pipeline_def os_path_exists_def os_path_getsize_def read_text_def
        sample_sizes sample_files sample_decoded)
  have bad_all: "\<not> list_all (stage_ok (sample_env True) (lit ''bad16.json'')) pipeline"
    by (simp add: pipeline_def os_path_exists_def os_path_getsize_def read_text_def
        sample_sizes sample_files sample_decoded)
  have shown: "can_print (sample_env True) (py_slice (lit doc_text) 0 50)"
    by (simp add: slice_from_start [of _ 50, simplified] lit_def doc_text_def ascii_def)
  have model: "can_print (sample_env True) (lit ''a=1'')"
    by (simp add: can_print_def lit_def)
  have valid: "list_all (stage_ok (sample_env True) (lit ''valid.json'')) pipeline"
    using shown model
    by (simp add: pipeline_def os_path_exists_def os_path_getsize_def read_text_def json_load_def
        sample_sizes sample_files sample_decoded sample_parsed)
       (simp add: sample_validate_def sample_str_def)
  then have all: "takeWhile (stage_ok (sample_env True) (lit ''valid.json'')) pipeline = pipeline"
    by (simp add: list_all_iff)
  have no: "\<not> can_print (latin1_env True) (py_slice arrow_text 0 50)"
    by (simp add: slice_from_start [of _ 50, simplified] can_print_def latin1_stdout_def
        arrow_text_def lit_def)
  have arrow: "takeWhile (stage_ok (latin1_env True) (lit ''arrow.json'')) pipeline
      = [Os_path_exists, Os_path_getsize, Open_rb]"
    using no
    by (simp add: pipeline_def os_path_exists_def os_path_getsize_def read_text_def
        sample_sizes sample_files sample_decoded)
  have arrow_all: "\<not> list_all (stage_ok (latin1_env True) (lit ''arrow.json'')) pipeline"
    using no
    by (simp add: pipeline_def os_path_exists_def os_path_getsize_def read_text_def
        sample_sizes sample_files sample_decoded)
  have escape_shown: "can_print (latin1_env True) (py_slice escape_text 0 50)"
    by (simp add: slice_from_start [of _ 50, simplified] escape_text_def lit_def ascii_def)
  have escape_model: "\<not> can_print (latin1_env True) (sample_str 2)"
    by (simp add: sample_str_def can_print_def latin1_stdout_def apostrophe_def lit_def)
  have escape: "takeWhile (stage_ok (latin1_env True) (lit ''escape.json'')) pipeline
      = [Os_path_exists, Os_path_getsize, Open_rb, Open_utf_16, Json_loads]"
    using escape_shown escape_model
    by (simp add: pipeline_def os_path_exists_def os_path_getsize_def read_text_def json_load_def
        sample_sizes sample_files sample_decoded sample_parsed)
       (simp add: sample_validate_def)
  have escape_all: "\<not> list_all (stage_ok (latin1_env True) (lit ''escape.json'')) pipeline"
    using escape_shown escape_model
    by (simp add: pipeline_def os_path_exists_def os_path_getsize_def read_text_def json_load_def
        sample_sizes sample_files sample_decoded sample_parsed)
       (simp add: sample_validate_def)
  from stages_run_in_order
         [where e = "sample_env True" and prog = "lit ''verify_json_file.py''"
            and p = "lit ''bad16.json''" and w = start and args = "[]"]
       stages_run_in_order
         [where e = "sample_env True" and prog = "lit ''verify_json_file.py''"
            and p = "lit ''valid.json''" and w = start and args = "[]"]
       stages_run_in_order
         [where e = "latin1_env True" and prog = "lit ''verify_json_file.py''"
            and p = "lit ''arrow.json''" and w = start and args = "[]"]
       stages_run_in_order
         [where e = "latin1_env True" and prog = "lit ''verify_json_file.py''"
            and p = "lit ''escape.json''" and w = start and args = "[]"]
  show ?thesis
    by (simp add: bad all valid bad_all arrow arrow_all escape escape_all)
       (simp add: pipeline_def)
qed

subsection \<open>Text that does not parse\<close>



lemma can_print_slice: "can_print e s \<Longrightarrow> can_print e (py_slice s i j)"
  by (simp add: py_slice_def can_print_take can_print_drop)

text \<open>
  The run on a readable, non-empty file whose text the parser refuses with \<open>x\<close>, when
  standard output can write the text and the message of \<open>x\<close>.
\<close>

lemma run_parse_failure:
  assumes "os_stat e p = Inr n" and "n \<noteq> 0"
    and "open_file e p = Inr input"
    and "decode_utf_16 (byteorder e) input = Inr content"
    and "json_loads e content = Inl x"
    and "can_print e content" and "can_print e (exn_str x)"
  shows "verify_json_file e prog [p] start =
          (Exit 1,
           \<lparr>stdout = [lit ''First bytes (hex): '' @ hex (take 10 input),
                      lit ''File content starts with: '' @ take 50 content @ lit ''...'']
                     @ (if isinstance x JSONDecodeError then
                          [lit ''JSON parsing error: '' @ exn_str x,
                           lit ''Error at position '' @ str_int (exn_pos x) @ lit '', near: ''
                             @ apostrophe
                             @ py_slice content (max 0 (exn_pos x - 20)) (exn_pos x + 20)
                             @ apostrophe]
                        else [lit ''File reading error: '' @ exn_str x]),
            logfile = [],
            calls = [Os_path_exists, Os_path_getsize, Open_rb, Open_utf_16, Json_loads]\<rparr>)"
  using assms slice_from_start [of content 50] can_print_take [of e content 50]
    can_print_slice [of e content "max 0 (exn_pos x - 20)" "exn_pos x + 20"]
  by (simp add: validator_defs print_ok proc_defs)





subsection \<open>Schema validation\<close>

lemma sublist_error_validating:
  "sublist (lit ''Error validating data'')
     (lit ''Error validating data against AddUpdateRequest model: '' @ s)"
proof -
  have "lit ''Error validating data against AddUpdateRequest model: '' @ s
      = lit ''Error validating data'' @ (lit '' against AddUpdateRequest model: '' @ s)"
    by (simp add: lit_def)
  then show ?thesis by simp
qed

text \<open>The run as far as schema validation, for a file that is read, shown and parsed.\<close>

lemma run_to_validation:
  assumes "os_stat e p = Inr n" and "n \<noteq> 0"
    and "open_file e p = Inr input"
    and "decode_utf_16 (byteorder e) input = Inr content"
    and "json_loads e content = Inr data"
    and "can_print e (take 50 content)"
  shows "validate_and_load_json e p start =
          (Return data,
           \<lparr>stdout = [lit ''First bytes (hex): '' @ hex (take 10 input),
                      lit ''File content starts with: '' @ take 50 content @ lit ''...'',
                      lit ''JSON parsed successfully!''],
            logfile = [],
            calls = [Os_path_exists, Os_path_getsize, Open_rb, Open_utf_16, Json_loads]\<rparr>)"
  using assms slice_from_start [of content 50]
  by (simp add: validator_defs print_ok proc_defs)

lemma status_validation:
  assumes "os_stat e p = Inr n" and "n \<noteq> 0"
    and "open_file e p = Inr input"
    and "decode_utf_16 (byteorder e) input = Inr content"
    and "json_loads e content = Inr data"
    and "can_print e (take 50 content)"
  shows "exit_status (fst (verify_json_file e prog [p] w))
       = (case model_validate e data of
            Inr response \<Rightarrow> if can_print e (model_str e response) then 0 else 1
          | Inl x \<Rightarrow> 1)"
  using assms slice_from_start [of content 50]
  by (simp add: verify_json_file_one_argument status_main pipeline_def os_path_exists_def
      os_path_getsize_def read_text_def json_load_def split: sum.splits)

text \<open>
  The claim as first stated fails when the validated model cannot be printed. On a
  Latin-1 standard output the document of \<^verbatim>\<open>escape.json\<close> parses and conforms to the
  schema; the record \<^verbatim>\<open>Data loaded successfully\<close> is logged, then the print of the
  model raises \<open>UnicodeEncodeError\<close> inside the \<^verbatim>\<open>try\<close>, the handler logs and prints it
  as a validation error, and the run exits with status 1.
\<close>

theorem conforming_document_reported_as_invalid:
  \<open>json_loads (latin1_env True) escape_text = Inr 2
   \<and> model_validate (latin1_env True) 2 = Inr 2
   \<and> verify_json_file (latin1_env True) (lit ''verify_json_file.py'') [lit ''escape.json''] start
     = (Exit 1,
        \<lparr>stdout = [lit ''First bytes (hex): fffe7b00220061002200'',
                   lit ''File content starts with: {"a": "'' @ [92] @ lit ''u2192"}...'',
                   lit ''JSON parsed successfully!'',
                   lit ''Data loaded into AddUpdateRequest model successfully!'',
                   lit ''Error validating data against AddUpdateRequest model: ''
                     @ apostrophe @ lit ''latin-1'' @ apostrophe
                     @ lit '' codec can't encode character '' @ apostrophe @ [92]
                     @ lit ''u2192'' @ apostrophe
                     @ lit '' in position 3: ordinal not in range(256)''],
         logfile = [(INFO, lit ''Data loaded successfully''),
                    (ERROR, lit ''Error validating data against AddUpdateRequest model: ''
                       @ apostrophe @ lit ''latin-1'' @ apostrophe
                       @ lit '' codec can't encode character '' @ apostrophe @ [92]
                       @ lit ''u2192'' @ apostrophe
                       @ lit '' in position 3: ordinal not in range(256)'')],
         calls = pipeline\<rparr>)\<close>
proof -
  have 1: "os_stat (latin1_env True) (lit ''escape.json'') = Inr 32" and 2: "(32::nat) \<noteq> 0"
    and 3: "open_file (latin1_env True) (lit ''escape.json'') = Inr utf16_escape"
    and 4: "decode_utf_16 (byteorder (latin1_env True)) utf16_escape = Inr escape_text"
    and 5: "json_loads (latin1_env True) escape_text = Inr 2"
    by (simp_all add: sample_sizes sample_files sample_decoded sample_parsed)
  have 6: "can_print (latin1_env True) (take 50 escape_text)"
    by (simp add: can_print_def escape_text_def lit_def)
  have valid: "model_validate (latin1_env True) m = Inr m" for m
    by (simp add: sample_validate_def)
  have no: "\<not> can_print (latin1_env True) (sample_str 2)"
    by (simp add: sample_str_def can_print_def latin1_stdout_def apostrophe_def lit_def)
  have msg: "encode_error_str (latin1_env True) (sample_str 2)
      = apostrophe @ lit ''latin-1'' @ apostrophe
        @ lit '' codec can't encode character '' @ apostrophe @ 92
        # lit ''u2192'' @ apostrophe
        @ lit '' in position 3: ordinal not in range(256)''"
    by (simp add: sample_str_def codec_encode_error_def latin1_stdout_def apostrophe_def
        lit_def hex4_def hex_digit_def str_nat.simps)
  have p: "print (latin1_env True) (sample_str 2) w
      = (Raise (Exn UnicodeEncodeError
                 (apostrophe @ lit ''latin-1'' @ apostrophe
                  @ lit '' codec can't encode character '' @ apostrophe @ 92
                  # lit ''u2192'' @ apostrophe
                  @ lit '' in position 3: ordinal not in range(256)'') 0), w)" for w
    by (simp only: print_fails [OF no] msg)
  have q: "print (latin1_env True)
        (lit ''Error validating data against AddUpdateRequest model: ''
         @ apostrophe @ lit ''latin-1'' @ apostrophe
         @ lit '' codec can't encode character '' @ apostrophe @ 92
         # lit ''u2192'' @ apostrophe
         @ lit '' in position 3: ordinal not in range(256)'') w
      = (Return (),
         printed (lit ''Error validating data against AddUpdateRequest model: ''
                  @ apostrophe @ lit ''latin-1'' @ apostrophe
                  @ lit '' codec can't encode character '' @ apostrophe @ 92
                  # lit ''u2192'' @ apostrophe
                  @ lit '' in position 3: ordinal not in range(256)'') w)" for w
    by (rule print_ok) (simp add: can_print_def lit_def apostrophe_def)
  have shown: \<open>take 50 escape_text = lit ''{"a": "'' @ [92] @ lit ''u2192"}''\<close>
    by (simp add: escape_text_def lit_def)
  have "verify_json_file (latin1_env True) (lit ''verify_json_file.py'') [lit ''escape.json''] start
     = (Exit 1,
        \<lparr>stdout = [lit ''First bytes (hex): '' @ hex (take 10 utf16_escape),
                   lit ''File content starts with: '' @ take 50 escape_text @ lit ''...'',
                   lit ''JSON parsed successfully!'',
                   lit ''Data loaded into AddUpdateRequest model successfully!'',
                   lit ''Error validating data against AddUpdateRequest model: ''
                     @ apostrophe @ lit ''latin-1'' @ apostrophe
                     @ lit '' codec can't encode character '' @ apostrophe @ [92]
                     @ lit ''u2192'' @ apostrophe
                     @ lit '' in position 3: ordinal not in range(256)''],
         logfile = [(INFO, lit ''Data loaded successfully''),
                    (ERROR, lit ''Error validating data against AddUpdateRequest model: ''
                       @ apostrophe @ lit ''latin-1'' @ apostrophe
                       @ lit '' codec can't encode character '' @ apostrophe @ [92]
                       @ lit ''u2192'' @ apostrophe
                       @ lit '' in position 3: ordinal not in range(256)'')],
         calls = pipeline\<rparr>)"
    unfolding verify_json_file_one_argument main_def run_to_validation [OF 1 2 3 4 5 6]
    by (simp add: validate_model_def sys_exit_def sample_validate_def Let_def p q print_ok
        pipeline_def proc_defs)
  then show ?thesis
    by (simp add: sample_parsed sample_validate_def sample_previews shown)
       (simp add: lit_def apostrophe_def)
qed

text \<open>
  Claim C2, amended. For a file that is read, shown and parsed to \<open>data\<close>, the status of
  the run is decided by schema validation and the print of the validated model: 0
  when \<open>data\<close> validates and standard output can encode the model, and 1 otherwise.
  When standard output can encode what is printed, the run has one of two outcomes. If
  \<open>data\<close> validates, the record \<^verbatim>\<open>Data loaded successfully\<close> is logged at level INFO, the
  validated model is printed and the script ends with status 0. If validation raises
  \<open>x\<close>, the exception is caught, the message
  \<^verbatim>\<open>Error validating data against AddUpdateRequest model: \<close> with the text of \<open>x\<close> is logged
  at level ERROR and printed, and the script exits with status 1.
\<close>

theorem schema_validation_outcomes:
  assumes "os_stat e p = Inr n" and "n \<noteq> 0"
    and "open_file e p = Inr input"
    and "decode_utf_16 (byteorder e) input = Inr content"
    and "json_loads e content = Inr data"
    and "can_print e (take 50 content)"
  shows "((case model_validate e data of
            Inr response \<Rightarrow> can_print e (model_str e response)
          | Inl x \<Rightarrow> can_print e (exn_str x)) \<longrightarrow>
         verify_json_file e prog [p] start =
          (case model_validate e data of
             Inr response \<Rightarrow>
               (Return (),
                \<lparr>stdout = [lit ''First bytes (hex): '' @ hex (take 10 input),
                           lit ''File content starts with: '' @ take 50 content @ lit ''...'',
                           lit ''JSON parsed successfully!'',
                           lit ''Data loaded into AddUpdateRequest model successfully!'',
                           model_str e response],
                 logfile = [(INFO, lit ''Data loaded successfully'')],
                 calls = pipeline\<rparr>)
           | Inl x \<Rightarrow>
               (Exit 1,
                \<lparr>stdout = [lit ''First bytes (hex): '' @ hex (take 10 input),
                           lit ''File content starts with: '' @ take 50 content @ lit ''...'',
                           lit ''JSON parsed successfully!'',
                           lit ''Error validating data against AddUpdateRequest model: ''
                             @ exn_str x],
                 logfile = [(ERROR, lit ''Error validating data against AddUpdateRequest model: ''
                                    @ exn_str x)],
                 calls = pipeline\<rparr>)))
   \<and> exit_status (fst (verify_json_file e prog [p] start))
       = (case model_validate e data of
            Inr response \<Rightarrow> if can_print e (model_str e response) then 0 else 1
          | Inl x \<Rightarrow> 1)
   \<and> sublist (lit ''Error validating data'')
        (lit ''Error validating data against AddUpdateRequest model: '' @ s)"
proof -
  have run: "verify_json_file e prog [p] start =
          (case model_validate e data of
             Inr response \<Rightarrow>
               (Return (),
                \<lparr>stdout = [lit ''First bytes (hex): '' @ hex (take 10 input),
                           lit ''File content starts with: '' @ take 50 content @ lit ''...'',
                           lit ''JSON parsed successfully!'',
                           lit ''Data loaded into AddUpdateRequest model successfully!'',
                           model_str e response],
                 logfile = [(INFO, lit ''Data loaded successfully'')],
                 calls = pipeline\<rparr>)
           | Inl x \<Rightarrow>
               (Exit 1,
                \<lparr>stdout = [lit ''First bytes (hex): '' @ hex (take 10 input),
                           lit ''File content starts with: '' @ take 50 content @ lit ''...'',
                           lit ''JSON parsed successfully!'',
                           lit ''Error validating data against AddUpdateRequest model: ''
                             @ exn_str x],
                 logfile = [(ERROR, lit ''Error validating data against AddUpdateRequest model: ''
                                    @ exn_str x)],
                 calls = pipeline\<rparr>))"
    if "case model_validate e data of
          Inr response \<Rightarrow> can_print e (model_str e response)
        | Inl x \<Rightarrow> can_print e (exn_str x)"
    using that
    unfolding verify_json_file_one_argument main_def run_to_validation [OF assms]
    by (simp add: validate_model_def sys_exit_def print_ok pipeline_def proc_defs
        split: sum.splits)
  from run status_validation [OF assms, of prog start] sublist_error_validating [of s]
  show ?thesis
    by blast
qed

theorem schema_validation_outcomes_witness:
  \<open>verify_json_file (sample_env True) (lit ''verify_json_file.py'') [lit ''valid.json''] start
     = (Return (),
        \<lparr>stdout = [lit ''First bytes (hex): fffe7b00220061002200'',
                   lit ''File content starts with: {"a": 1}...'',
                   lit ''JSON parsed successfully!'',
                   lit ''Data loaded into AddUpdateRequest model successfully!'',
                   lit ''a=1''],
         logfile = [(INFO, lit ''Data loaded successfully'')],
         calls = pipeline\<rparr>)
   \<and> verify_json_file (sample_env False) (lit ''verify_json_file.py'') [lit ''valid.json''] start
     = (Exit 1,
        \<lparr>stdout = [lit ''First bytes (hex): fffe7b00220061002200'',
                   lit ''File content starts with: {"a": 1}...'',
                   lit ''JSON parsed successfully!'',
                   lit ''Error validating data against AddUpdateRequest model: 1 validation error for AddUpdateRequest''],
         logfile = [(ERROR, lit ''Error validating data against AddUpdateRequest model: 1 validation error for AddUpdateRequest'')],
         calls = pipeline\<rparr>)
   \<and> exit_status (fst (verify_json_file (latin1_env True) (lit ''verify_json_file.py'')
                         [lit ''escape.json''] start)) = 1\<close>
proof -
  have 1: "os_stat (sample_env a) (lit ''valid.json'') = Inr 18" and 2: "(18::nat) \<noteq> 0"
    and 3: "open_file (sample_env a) (lit ''valid.json'') = Inr utf16_doc"
    and 4: "decode_utf_16 (byteorder (sample_env a)) utf16_doc = Inr (lit doc_text)"
    and 5: "json_loads (sample_env a) (lit doc_text) = Inr 1" for a
    by (simp_all add: sample_sizes sample_files sample_decoded sample_parsed)
  have 6: "can_print (sample_env a) (take 50 (lit doc_text))" for a
    by (simp add: can_print_def doc_text_def lit_def)
  have yes: "model_validate (sample_env True) 1 = Inr 1"
    and no: "model_validate (sample_env False) 1
               = Inl (Exn ValidationError (lit ''1 validation error for AddUpdateRequest'') 0)"
    by (simp_all add: sample_validate_def)
  have str: "model_str (sample_env True) 1 = lit ''a=1''"
    by (simp add: sample_str_def)
  have e1: "os_stat (latin1_env True) (lit ''escape.json'') = Inr 32" and e2: "(32::nat) \<noteq> 0"
    and e3: "open_file (latin1_env True) (lit ''escape.json'') = Inr utf16_escape"
    and e4: "decode_utf_16 (byteorder (latin1_env True)) utf16_escape = Inr escape_text"
    and e5: "json_loads (latin1_env True) escape_text = Inr 2"
    by (simp_all add: sample_sizes sample_files sample_decoded sample_parsed)
  have e6: "can_print (latin1_env True) (take 50 escape_text)"
    by (simp add: can_print_def escape_text_def lit_def)
  have e7: "model_validate (latin1_env True) 2 = Inr 2"
    by (simp add: sample_validate_def)
  have e8: "\<not> can_print (latin1_env True) (model_str (latin1_env True) 2)"
    by (simp add: sample_str_def can_print_def latin1_stdout_def apostrophe_def lit_def)
  have printable: "can_print (sample_env True) (lit ''a=1'')"
    "can_print (sample_env False) (lit ''1 validation error for AddUpdateRequest'')"
    by (simp_all add: can_print_def lit_def)
  note accepted = schema_validation_outcomes
         [OF 1 [of True] 2 3 [of True] 4 [of True] 5 [of True] 6 [of True],
          where prog = "lit ''verify_json_file.py''" and s = "[]"]
  note refused = schema_validation_outcomes
         [OF 1 [of False] 2 3 [of False] 4 [of False] 5 [of False] 6 [of False],
          where prog = "lit ''verify_json_file.py''" and s = "[]"]
  note escaped = schema_validation_outcomes
         [OF e1 e2 e3 e4 e5 e6, where prog = "lit ''verify_json_file.py''" and s = "[]"]
  from accepted [unfolded yes sum.case str] refused [unfolded no sum.case]
    escaped [unfolded e7 sum.case] e8 printable
  show ?thesis
    by (simp add: sample_previews) (simp add: lit_def doc_text_def)
qed

subsection \<open>The log file\<close>

lemma logfile_validate_and_load_json:
  "logfile (snd (validate_and_load_json e p w)) = logfile w"
  by (simp add: validate_and_load_json_def try_read_and_parse_def read_and_parse_def
      parse_content_def loads_content_def print_def andthen_def sys_exit_def proc_defs Let_def
      split: sum.splits prod.splits result.splits if_splits)

lemma exit_validate_and_load_json:
  "fst (validate_and_load_json e p w) = Exit n \<Longrightarrow> n = 1"
  by (simp add: validate_and_load_json_def try_read_and_parse_def read_and_parse_def
      parse_content_def loads_content_def print_def andthen_def sys_exit_def proc_defs Let_def
      split: sum.splits prod.splits result.splits if_splits)

lemma logfile_main_not_reached:
  assumes "\<forall>data. fst (validate_and_load_json e p w) \<noteq> Return data"
  shows "logfile (snd (main e p w)) = logfile w \<and> exit_status (fst (main e p w)) = 1"
proof (cases "validate_and_load_json e p w")
  case (Pair r w1)
  with logfile_validate_and_load_json [of e p w] have log: "logfile w1 = logfile w"
    by simp
  show ?thesis
  proof (cases r)
    case (Return data)
    with Pair assms show ?thesis by simp
  next
    case (Raise x)
    with Pair log show ?thesis by (simp add: main_def)
  next
    case (Exit n)
    with Pair exit_validate_and_load_json [of e p w n] have "n = 1" by simp
    with Exit Pair log show ?thesis by (simp add: main_def)
  qed
qed

lemma logfile_main_reached:
  assumes "fst (validate_and_load_json e p w) = Return data"
  shows "Model_validate \<in> set (calls (snd (main e p w)))
         \<and> (\<exists>rs. logfile (snd (main e p w)) = logfile w @ rs
                   \<and> map fst rs \<in> {[INFO], [ERROR], [INFO, ERROR]})"
proof (cases "validate_and_load_json e p w")
  case (Pair r w1)
  with logfile_validate_and_load_json [of e p w] have log: "logfile w1 = logfile w"
    by simp
  from Pair assms have "r = Return data" by simp
  with Pair log show ?thesis
    by (cases "model_validate e data")
       (simp_all add: main_def validate_model_def print_def andthen_def sys_exit_def
          proc_defs Let_def)
qed

lemma logfile_script:
  assumes "Model_validate \<notin> set (calls (snd (verify_json_file e prog args start)))"
  shows "logfile (snd (verify_json_file e prog args start)) = []"
proof (cases "length args = 1")
  case False
  then show ?thesis
    by (simp add: verify_json_file_def print_def andthen_def sys_exit_def proc_defs)
next
  case True
  then have script: "verify_json_file e prog args start = main e (args ! 0) start"
    by (simp add: verify_json_file_def)
  show ?thesis
  proof (cases "\<exists>data. fst (validate_and_load_json e (args ! 0) start) = Return data")
    case True
    with assms script logfile_main_reached [of e "args ! 0" start] show ?thesis by auto
  next
    case False
    with script logfile_main_not_reached [of e "args ! 0" start] show ?thesis
      by (simp add: start_def)
  qed
qed

text \<open>
  Claim C10. Loading the file never writes to the log. A run that does not reach
  schema validation (missing or empty file, decoding or parsing error, wrong number of
  arguments) leaves the log as it was and has status 1; a run that reaches schema
  validation appends one record, at level INFO or at level ERROR, or the two in this
  order.
\<close>

theorem log_written_only_by_schema_validation:
  "logfile (snd (validate_and_load_json e p w)) = logfile w
   \<and> ((\<forall>data. fst (validate_and_load_json e p w) \<noteq> Return data) \<longrightarrow>
        logfile (snd (main e p w)) = logfile w \<and> exit_status (fst (main e p w)) = 1)
   \<and> (fst (validate_and_load_json e p w) = Return data \<longrightarrow>
        (\<exists>rs. logfile (snd (main e p w)) = logfile w @ rs
              \<and> map fst rs \<in> {[INFO], [ERROR], [INFO, ERROR]}))
   \<and> (Model_validate \<notin> set (calls (snd (verify_json_file e prog args start))) \<longrightarrow>
        logfile (snd (verify_json_file e prog args start)) = [])"
  using logfile_validate_and_load_json [of e p w] logfile_main_not_reached [of e p w]
    logfile_main_reached [of e p w data] logfile_script [of e prog args]
  by blast

theorem log_written_only_by_schema_validation_witness:
  "logfile (snd (verify_json_file (sample_env True) (lit ''verify_json_file.py'')
                   [lit ''missing.json''] start)) = []
   \<and> logfile (snd (main (sample_env True) (lit ''broken.json'') start)) = logfile start
   \<and> exit_status (fst (main (sample_env True) (lit ''broken.json'') start)) = 1
   \<and> (\<exists>rs. logfile (snd (main (sample_env True) (lit ''valid.json'') start))
               = logfile start @ rs
            \<and> map fst rs \<in> {[INFO], [ERROR], [INFO, ERROR]})"
proof -
  have missing: "Model_validate \<notin> set (calls (snd (verify_json_file (sample_env True)
      (lit ''verify_json_file.py'') [lit ''missing.json''] start)))"
    by (simp add: verify_json_file_one_argument calls_main pipeline_def os_path_exists_def
        sample_sizes)
  have b1: "os_stat (sample_env True) (lit ''broken.json'') = Inr 16" and b2: "(16::nat) \<noteq> 0"
    and b3: "open_file (sample_env True) (lit ''broken.json'') = Inr utf16_broken"
    and b4: "decode_utf_16 (byteorder (sample_env True)) utf16_broken = Inr (lit broken_text)"
    and b5: "json_loads (sample_env True) (lit broken_text)
              = Inl (Exn JSONDecodeError
                       (lit ''Expecting '' @ apostrophe @ lit '','' @ apostrophe
                        @ lit '' delimiter: line 1 column 8 (char 7)'') 7)"
    by (simp_all add: sample_sizes sample_files sample_decoded sample_parsed)
  have b6: "can_print (sample_env True) (lit broken_text)"
    by (simp add: can_print_def lit_def broken_text_def)
  have b7: "can_print (sample_env True)
             (exn_str (Exn JSONDecodeError
                        (lit ''Expecting '' @ apostrophe @ lit '','' @ apostrophe
                         @ lit '' delimiter: line 1 column 8 (char 7)'') 7))"
    by (simp add: can_print_def lit_def apostrophe_def)
  have "Model_validate \<notin> set (calls (snd (main (sample_env True) (lit ''broken.json'') start)))"
    using run_parse_failure [OF b1 b2 b3 b4 b5 b6 b7, of "[]"]
    by (simp add: verify_json_file_one_argument)
  with logfile_main_reached [of "sample_env True" "lit ''broken.json''" start]
  have broken: "\<forall>data. fst (validate_and_load_json (sample_env True) (lit ''broken.json'')
      start) \<noteq> Return data"
    by blast
  have 1: "os_stat (sample_env True) (lit ''valid.json'') = Inr 18" and 2: "(18::nat) \<noteq> 0"
    and 3: "open_file (sample_env True) (lit ''valid.json'') = Inr utf16_doc"
    and 4: "decode_utf_16 (byteorder (sample_env True)) utf16_doc = Inr (lit doc_text)"
    and 5: "json_loads (sample_env True) (lit doc_text) = Inr 1"
    by (simp_all add: sample_sizes sample_files sample_decoded sample_parsed)
  have 6: "can_print (sample_env True) (take 50 (lit doc_text))"
    by (simp add: can_print_def doc_text_def lit_def)
  have valid: "fst (validate_and_load_json (sample_env True) (lit ''valid.json'') start) = Return 1"
    by (simp add: run_to_validation [OF 1 2 3 4 5 6])
  from missing broken valid
    log_written_only_by_schema_validation
      [where e = "sample_env True" and prog = "lit ''verify_json_file.py''"
         and args = "[lit ''missing.json'']"]
    log_written_only_by_schema_validation
      [where e = "sample_env True" and p = "lit ''broken.json''" and w = start]
    log_written_only_by_schema_validation
      [where e = "sample_env True" and p = "lit ''valid.json''" and w = start and data = 1]
  show ?thesis
    by blast
qed

end
